theory Spec2Isabelle
  imports Complex_Main
begin

section \<open>The calling API (src/script/calling/callAPI.ts)\<close>

text \<open>
  The module keeps one mutable \<open>state\<close> object; every exported function is modelled as a
  function from that state to the value returned and the state afterwards. The
  \<open>activeCalls\<close> object is a plain object used as a dictionary from call identifiers to
  calls: it is given by its own properties (a map) and by its prototype, since reading a
  property that the object does not own goes on in the prototype chain. Calls of the
  callbacks of a user and of the browser's media functions are recorded, in order, in a
  list of effects.
\<close>

datatype CALL_MESSAGE_TYPE =
  CANCEL | GROUP_CHECK | GROUP_LEAVE | GROUP_SETUP | GROUP_START
  | HANGUP | PROP_SYNC | REJECT | SETUP | UPDATE

fun CALL_MESSAGE_TYPE_text :: "CALL_MESSAGE_TYPE \<Rightarrow> string" where
  "CALL_MESSAGE_TYPE_text CANCEL = ''CANCEL''"
| "CALL_MESSAGE_TYPE_text GROUP_CHECK = ''GROUPCHECK''"
| "CALL_MESSAGE_TYPE_text GROUP_LEAVE = ''GROUPLEAVE''"
| "CALL_MESSAGE_TYPE_text GROUP_SETUP = ''GROUPSETUP''"
| "CALL_MESSAGE_TYPE_text GROUP_START = ''GROUPSTART''"
| "CALL_MESSAGE_TYPE_text HANGUP = ''HANGUP''"
| "CALL_MESSAGE_TYPE_text PROP_SYNC = ''PROPSYNC''"
| "CALL_MESSAGE_TYPE_text REJECT = ''REJECT''"
| "CALL_MESSAGE_TYPE_text SETUP = ''SETUP''"
| "CALL_MESSAGE_TYPE_text UPDATE = ''UPDATE''"

datatype CALL_TYPE = NORMAL | VIDEO | FORCED_AUDIO

fun CALL_TYPE_value :: "CALL_TYPE \<Rightarrow> nat" where
  "CALL_TYPE_value NORMAL = 0"
| "CALL_TYPE_value VIDEO = 1"
| "CALL_TYPE_value FORCED_AUDIO = 2"

datatype CONVERSATION_TYPE = ONEONONE | GROUP | CONFERENCE

fun CONVERSATION_TYPE_value :: "CONVERSATION_TYPE \<Rightarrow> nat" where
  "CONVERSATION_TYPE_value ONEONONE = 0"
| "CONVERSATION_TYPE_value GROUP = 1"
| "CONVERSATION_TYPE_value CONFERENCE = 2"

datatype CALL_STATE =
  NONE | OUTGOING | INCOMING | ANSWERED | MEDIA_ESTAB | TERM_LOCAL | TERM_REMOTE | UNKNOWN

fun CALL_STATE_value :: "CALL_STATE \<Rightarrow> nat" where
  "CALL_STATE_value NONE = 0"
| "CALL_STATE_value OUTGOING = 1"
| "CALL_STATE_value INCOMING = 2"
| "CALL_STATE_value ANSWERED = 3"
| "CALL_STATE_value MEDIA_ESTAB = 4"
| "CALL_STATE_value TERM_LOCAL = 6"
| "CALL_STATE_value TERM_REMOTE = 7"
| "CALL_STATE_value UNKNOWN = 8"

text \<open>
  A \<open>WCall\<close>. The constructor assigns every field but \<open>state\<close>, which is \<open>undefined\<close>
  (\<open>None\<close>) until it is assigned.
\<close>

record WCall =
  wc_conversationId :: string
  wc_state :: "CALL_STATE option"
  wc_callType :: CALL_TYPE
  wc_conversationType :: CONVERSATION_TYPE
  wc_audioCbr :: bool

definition new_WCall :: "CALL_TYPE \<Rightarrow> string \<Rightarrow> CONVERSATION_TYPE \<Rightarrow> bool \<Rightarrow> WCall" where
  "new_WCall callType conversationId conversationType audioCbr =
     \<lparr>wc_conversationId = conversationId, wc_state = None, wc_callType = callType,
      wc_conversationType = conversationType, wc_audioCbr = audioCbr\<rparr>"

text \<open>A \<open>WUser\<close>; what its two callbacks are called with is recorded as an effect.\<close>

record WUser =
  wu_userId :: string
  wu_clientId :: string

text \<open>The object that \<open>buildMessagePayload\<close> hands to \<open>JSON.stringify\<close>.\<close>

record MessageProps =
  audiosend :: string
  screensend :: string
  videosend :: string

record MessagePayload =
  mp_resp :: bool
  mp_type :: CALL_MESSAGE_TYPE
  mp_version :: string
  mp_props :: MessageProps
  mp_sdp :: string
  mp_sessid :: string

text \<open>The arguments of one call of the \<open>sendMessage\<close> callback.\<close>

record SentMessage =
  sm_context :: string
  sm_conversationId :: string
  sm_userId :: string
  sm_clientId :: string
  sm_destUserId :: "string option"
  sm_destUserClient :: "string option"
  sm_data :: MessagePayload
  sm_size :: nat

datatype api_effect =
  RequestConfig
  | NewPeerConnection string
  | CreateDataChannel string
  | GetUserMedia
  | SendMessage SentMessage

text \<open>
  The state of the module. \<open>activeCalls\<close> holds the own properties of the object of that
  name. \<open>activeCalls_proto\<close> is its prototype: \<open>Object.prototype\<close> (\<open>None\<close>) as for every
  object literal, or a call, once one has been assigned to the property \<open>__proto__\<close>.
\<close>

record CallState =
  callConfig :: string
  activeCalls :: "string \<rightharpoonup> WCall"
  activeCalls_proto :: "WCall option"
  api_effects :: "api_effect list"

definition initial_CallState :: CallState where
  "initial_CallState =
     \<lparr>callConfig = ''{}'', activeCalls = Map.empty, activeCalls_proto = None,
      api_effects = []\<rparr>"

text \<open>
  The names of the members of \<open>Object.prototype\<close> in a browser. Each is a function, but
  \<open>__proto__\<close>, which reads and replaces the prototype of the object it is used on.
\<close>

definition Object_prototype_names :: "string list" where
  "Object_prototype_names =
     [''constructor'', ''__defineGetter__'', ''__defineSetter__'', ''hasOwnProperty'',
      ''__lookupGetter__'', ''__lookupSetter__'', ''isPrototypeOf'', ''propertyIsEnumerable'',
      ''toString'', ''valueOf'', ''__proto__'', ''toLocaleString'']"

text \<open>
  The own properties of a call that \<open>callStart\<close> has built, by name: whether the value is
  truthy (a non-empty string, a number other than 0, \<open>true\<close>).
\<close>

definition WCall_property_names :: "string list" where
  "WCall_property_names =
     [''conversationId'', ''conversationType'', ''callType'', ''audioCbr'', ''state'']"

definition WCall_property_truthy :: "WCall \<Rightarrow> string \<Rightarrow> bool" where
  "WCall_property_truthy w k =
     (if k = ''conversationId'' then wc_conversationId w \<noteq> []
      else if k = ''conversationType'' then CONVERSATION_TYPE_value (wc_conversationType w) \<noteq> 0
      else if k = ''callType'' then CALL_TYPE_value (wc_callType w) \<noteq> 0
      else if k = ''audioCbr'' then wc_audioCbr w
      else (case wc_state w of None \<Rightarrow> False | Some st \<Rightarrow> CALL_STATE_value st \<noteq> 0))"

text \<open>
  What \<open>state.activeCalls[k]\<close> reads: a call (an own property, or the prototype itself
  under \<open>__proto__\<close>), another value found in the prototype chain, given by whether it is
  truthy (a function, \<open>Object.prototype\<close>, or a field of the call that is the prototype;
  none of them has a property \<open>state\<close>), or \<open>undefined\<close>.
\<close>

datatype property = Stored WCall | Inherited bool | Absent

definition activeCalls_get :: "CallState \<Rightarrow> string \<Rightarrow> property" where
  "activeCalls_get st k =
     (case activeCalls st k of
        Some c \<Rightarrow> Stored c
      | None \<Rightarrow>
          (case activeCalls_proto st of
             None \<Rightarrow> if k \<in> set Object_prototype_names then Inherited True else Absent
           | Some w \<Rightarrow>
               if k = ''__proto__'' then Stored w
               else if k \<in> set WCall_property_names then Inherited (WCall_property_truthy w k)
               else if k \<in> set Object_prototype_names then Inherited True
               else Absent))"

text \<open>
  \<open>state.activeCalls[k] = wCall\<close>: an own property is written, but for \<open>__proto__\<close>, where
  the call becomes the prototype and no own property is made.
\<close>

definition activeCalls_set :: "string \<Rightarrow> WCall \<Rightarrow> CallState \<Rightarrow> CallState" where
  "activeCalls_set k w st =
     (if k = ''__proto__'' then st\<lparr>activeCalls_proto := Some w\<rparr>
      else st\<lparr>activeCalls := (activeCalls st)(k \<mapsto> w)\<rparr>)"

text \<open>Whether a name is read from the prototype chain when the object does not own it.\<close>

definition inherited_name :: "CallState \<Rightarrow> string \<Rightarrow> bool" where
  "inherited_name st k =
     (k \<in> set Object_prototype_names
      \<or> (activeCalls_proto st \<noteq> None \<and> k \<in> set WCall_property_names))"

definition callCreate :: "string \<Rightarrow> string \<Rightarrow> CallState \<Rightarrow> WUser \<times> CallState" where
  "callCreate userId clientId st =
     (let wUser = \<lparr>wu_userId = userId, wu_clientId = clientId\<rparr>
      in (wUser, st\<lparr>api_effects := api_effects st @ [RequestConfig]\<rparr>))"

definition generateCallId :: "WUser \<Rightarrow> string \<Rightarrow> string" where
  "generateCallId call conversationId = wu_userId call @ wu_clientId call @ conversationId"

definition initPeerConnection :: "CallState \<Rightarrow> CallState" where
  "initPeerConnection st =
     st\<lparr>api_effects := api_effects st
          @ [NewPeerConnection (callConfig st), CreateDataChannel ''calling-3.0'']\<rparr>"

definition buildMessagePayload ::
  "CALL_MESSAGE_TYPE \<Rightarrow> string \<Rightarrow> string \<Rightarrow> bool \<Rightarrow> MessagePayload" where
  "buildMessagePayload type sessid sdp isReponse =
     \<lparr>mp_resp = isReponse, mp_type = type, mp_version = ''3.0'',
      mp_props = \<lparr>audiosend = ''true'', screensend = ''false'', videosend = ''false''\<rparr>,
      mp_sdp = sdp, mp_sessid = sessid\<rparr>"

text \<open>
  \<open>callStart\<close>, up to its \<open>return true\<close>. The branch taken when a call is already stored
  under the identifier has an empty body in the source.
\<close>

definition callStart ::
  "WUser \<Rightarrow> string \<Rightarrow> CALL_TYPE \<Rightarrow> CONVERSATION_TYPE \<Rightarrow> bool \<Rightarrow> CallState
     \<Rightarrow> bool \<times> CallState" where
  "callStart wUser conversationId callType conversationType audioCbr st =
     (let callIdentifier = generateCallId wUser conversationId;
          activeCall = activeCalls_get st callIdentifier;
          st1 = (case activeCall of
                   Stored c \<Rightarrow> st
                 | Inherited b \<Rightarrow> st
                 | Absent \<Rightarrow> st);
          wCall = (new_WCall callType conversationId conversationType audioCbr)
                    \<lparr>wc_state := Some OUTGOING\<rparr>;
          st2 = activeCalls_set callIdentifier wCall st1;
          st3 = initPeerConnection st2;
          st4 = st3\<lparr>api_effects := api_effects st3 @ [GetUserMedia]\<rparr>
      in (True, st4))"

text \<open>
  The function that \<open>callStart\<close> schedules with \<open>window.setTimeout\<close> 500 ms after the local
  description is set. \<open>transformedSdp\<close> is the text that \<open>SDPMapper.rewriteSdp\<close> (not part
  of these sources) yields for the local description.
\<close>

definition callStart_timeout :: "WUser \<Rightarrow> string \<Rightarrow> string \<Rightarrow> CallState \<Rightarrow> CallState" where
  "callStart_timeout wUser conversationId transformedSdp st =
     (let message = buildMessagePayload SETUP ''felix'' transformedSdp False
      in st\<lparr>api_effects := api_effects st @
           [SendMessage \<lparr>sm_context = ''felix'', sm_conversationId = conversationId,
              sm_userId = wu_userId wUser, sm_clientId = wu_clientId wUser,
              sm_destUserId = None, sm_destUserClient = None,
              sm_data = message, sm_size = 0\<rparr>]\<rparr>)"

definition callConfigUpdate :: "string \<Rightarrow> CallState \<Rightarrow> CallState" where
  "callConfigUpdate config st = st\<lparr>callConfig := config\<rparr>"

text \<open>
  \<open>callGetState\<close>: the value returned is a state, or \<open>undefined\<close> (\<open>None\<close>), which is what
  reading \<open>state\<close> yields on a call whose state was never assigned and on a truthy value
  that is not a call.
\<close>

definition callGetState :: "WUser \<Rightarrow> string \<Rightarrow> CallState \<Rightarrow> CALL_STATE option" where
  "callGetState wUser conversationId st =
     (let callIdentifier = generateCallId wUser conversationId;
          foundCall = activeCalls_get st callIdentifier
      in case foundCall of
           Stored c \<Rightarrow> wc_state c
         | Inherited b \<Rightarrow> if b then None else Some UNKNOWN
         | Absent \<Rightarrow> Some UNKNOWN)"

text \<open>The states in which a call is over: the spec's terminal states.\<close>

definition terminal_state :: "CALL_STATE option \<Rightarrow> bool" where
  "terminal_state s = (s \<in> {Some NONE, Some TERM_LOCAL, Some TERM_REMOTE})"

text \<open>The pattern \<open>[A-Za-z0-9_]{4}\<close>, matched against a whole string.\<close>

definition word_char :: "char \<Rightarrow> bool" where
  "word_char c =
     (let n = (of_char c :: nat)
      in (65 \<le> n \<and> n \<le> 90) \<or> (97 \<le> n \<and> n \<le> 122) \<or> (48 \<le> n \<and> n \<le> 57) \<or> n = 95)"

definition session_id_pattern :: "string \<Rightarrow> bool" where
  "session_id_pattern s = (length s = 4 \<and> list_all word_char s)"

text \<open>The session ids of the messages sent so far.\<close>

definition sent_sessids :: "api_effect list \<Rightarrow> string list" where
  "sent_sessids es =
     concat (map (\<lambda>e. case e of SendMessage m \<Rightarrow> [mp_sessid (sm_data m)] | _ \<Rightarrow> []) es)"

section \<open>JSON texts\<close>

text \<open>
  \<open>JSON.parse\<close> is a function of the language, not of this repository. It is modelled by a
  parser for the JSON grammar (ECMA-404) that returns \<open>None\<close> where \<open>JSON.parse\<close> throws a
  \<open>SyntaxError\<close>. Numbers and strings keep their source text. The recursion is bounded by
  a counter; every second nested call has consumed a character, so twice the length of the
  text (and two more) is never used up.
\<close>

datatype json =
  JNull | JBool bool | JNumber string | JString string
  | JArray "json list" | JObject "(string \<times> json) list"

definition json_ws :: "char \<Rightarrow> bool" where
  "json_ws c = (c = CHR '' '' \<or> c = CHR 0x09 \<or> c = CHR 0x0A \<or> c = CHR 0x0D)"

fun skip_ws :: "string \<Rightarrow> string" where
  "skip_ws [] = []"
| "skip_ws (c # cs) = (if json_ws c then skip_ws cs else c # cs)"

definition is_digit :: "char \<Rightarrow> bool" where
  "is_digit c = (48 \<le> (of_char c :: nat) \<and> (of_char c :: nat) \<le> 57)"

definition is_hex :: "char \<Rightarrow> bool" where
  "is_hex c =
     (let n = (of_char c :: nat)
      in (48 \<le> n \<and> n \<le> 57) \<or> (65 \<le> n \<and> n \<le> 70) \<or> (97 \<le> n \<and> n \<le> 102))"

definition is_simple_escape :: "char \<Rightarrow> bool" where
  "is_simple_escape c = (c \<in> set (CHR 0x22 # CHR 0x5C # ''/bfnrt''))"

text \<open>The characters of a string after its opening quote, up to the closing quote.\<close>

fun parse_string_chars :: "string \<Rightarrow> string \<Rightarrow> (string \<times> string) option" where
  "parse_string_chars acc [] = None"
| "parse_string_chars acc [c] = (if c = CHR 0x22 then Some (rev acc, []) else None)"
| "parse_string_chars acc (c # e # r) =
     (if c = CHR 0x22 then Some (rev acc, e # r)
      else if c = CHR 0x5C then
        (if is_simple_escape e then parse_string_chars (e # c # acc) r
         else if e = CHR ''u'' \<and> 4 \<le> length r \<and> list_all is_hex (take 4 r)
           then parse_string_chars (rev (take 4 r) @ e # c # acc) (drop 4 r)
         else None)
      else if (of_char c :: nat) < 32 then None
      else parse_string_chars (c # acc) (e # r))"

definition parse_digits :: "string \<Rightarrow> (string \<times> string) option" where
  "parse_digits s =
     (let ds = takeWhile is_digit s
      in if ds = [] then None else Some (ds, dropWhile is_digit s))"

definition parse_int_part :: "string \<Rightarrow> (string \<times> string) option" where
  "parse_int_part s =
     (case s of [] \<Rightarrow> None
      | d # r \<Rightarrow> if d = CHR ''0'' then Some ([d], r)
                 else if is_digit d then parse_digits s
                 else None)"

definition parse_fraction :: "string \<Rightarrow> (string \<times> string) option" where
  "parse_fraction s =
     (case s of [] \<Rightarrow> Some ([], s)
      | d # r \<Rightarrow> if d = CHR ''.''
                 then (case parse_digits r of None \<Rightarrow> None
                       | Some (ds, r') \<Rightarrow> Some (d # ds, r'))
                 else Some ([], s))"

definition parse_exponent :: "string \<Rightarrow> (string \<times> string) option" where
  "parse_exponent s =
     (case s of [] \<Rightarrow> Some ([], s)
      | e # r \<Rightarrow>
          if e = CHR ''e'' \<or> e = CHR ''E'' then
            (let (sign, r1) =
                   (case r of [] \<Rightarrow> ([], r)
                    | g # r' \<Rightarrow> if g = CHR ''+'' \<or> g = CHR ''-'' then ([g], r') else ([], r))
             in case parse_digits r1 of None \<Rightarrow> None
                | Some (ds, r2) \<Rightarrow> Some (e # sign @ ds, r2))
          else Some ([], s))"

definition parse_number :: "string \<Rightarrow> (string \<times> string) option" where
  "parse_number s =
     (let (sign, r0) =
            (case s of [] \<Rightarrow> ([], s)
             | m # r \<Rightarrow> if m = CHR ''-'' then ([m], r) else ([], s))
      in case parse_int_part r0 of None \<Rightarrow> None
         | Some (ip, r1) \<Rightarrow>
             (case parse_fraction r1 of None \<Rightarrow> None
              | Some (fp, r2) \<Rightarrow>
                  (case parse_exponent r2 of None \<Rightarrow> None
                   | Some (ep, r3) \<Rightarrow> Some (sign @ ip @ fp @ ep, r3))))"

definition parse_literal :: "string \<Rightarrow> json \<Rightarrow> string \<Rightarrow> (json \<times> string) option" where
  "parse_literal word v s =
     (if take (length word) s = word then Some (v, drop (length word) s) else None)"

fun parse_value :: "nat \<Rightarrow> string \<Rightarrow> (json \<times> string) option"
  and parse_elements :: "nat \<Rightarrow> json list \<Rightarrow> string \<Rightarrow> (json list \<times> string) option"
  and parse_members ::
    "nat \<Rightarrow> (string \<times> json) list \<Rightarrow> string \<Rightarrow> ((string \<times> json) list \<times> string) option"
where
  "parse_value 0 s = None"
| "parse_value (Suc n) [] = None"
| "parse_value (Suc n) (c # r) =
     (if c = CHR ''['' then
        (case skip_ws r of [] \<Rightarrow> None
         | d # r' \<Rightarrow> if d = CHR '']'' then Some (JArray [], r')
                     else (case parse_elements n [] (d # r') of None \<Rightarrow> None
                           | Some (vs, r'') \<Rightarrow> Some (JArray vs, r'')))
      else if c = CHR ''{'' then
        (case skip_ws r of [] \<Rightarrow> None
         | d # r' \<Rightarrow> if d = CHR ''}'' then Some (JObject [], r')
                     else (case parse_members n [] (d # r') of None \<Rightarrow> None
                           | Some (ms, r'') \<Rightarrow> Some (JObject ms, r'')))
      else if c = CHR 0x22 then
        (case parse_string_chars [] r of None \<Rightarrow> None
         | Some (str, r') \<Rightarrow> Some (JString str, r'))
      else if c = CHR ''t'' then parse_literal ''true'' (JBool True) (c # r)
      else if c = CHR ''f'' then parse_literal ''false'' (JBool False) (c # r)
      else if c = CHR ''n'' then parse_literal ''null'' JNull (c # r)
      else (case parse_number (c # r) of None \<Rightarrow> None
            | Some (num, r') \<Rightarrow> Some (JNumber num, r')))"
| "parse_elements 0 acc s = None"
| "parse_elements (Suc n) acc s =
     (case parse_value n s of None \<Rightarrow> None
      | Some (v, r) \<Rightarrow>
          (case skip_ws r of [] \<Rightarrow> None
           | d # r' \<Rightarrow> if d = CHR '','' then parse_elements n (v # acc) (skip_ws r')
                       else if d = CHR '']'' then Some (rev (v # acc), r')
                       else None))"
| "parse_members 0 acc s = None"
| "parse_members (Suc n) acc [] = None"
| "parse_members (Suc n) acc (q # s) =
     (if q \<noteq> CHR 0x22 then None
      else case parse_string_chars [] s of None \<Rightarrow> None
       | Some (key, r) \<Rightarrow>
          (case skip_ws r of [] \<Rightarrow> None
           | col # r1 \<Rightarrow>
               if col \<noteq> CHR '':'' then None
               else (case parse_value n (skip_ws r1) of None \<Rightarrow> None
                | Some (v, r2) \<Rightarrow>
                   (case skip_ws r2 of [] \<Rightarrow> None
                    | d # r3 \<Rightarrow>
                        if d = CHR '','' then parse_members n ((key, v) # acc) (skip_ws r3)
                        else if d = CHR ''}'' then Some (rev ((key, v) # acc), r3)
                        else None))))"

definition JSON_parse :: "string \<Rightarrow> json option" where
  "JSON_parse txt =
     (case parse_value (2 * length txt + 2) (skip_ws txt) of None \<Rightarrow> None
      | Some (v, r) \<Rightarrow> if skip_ws r = [] then Some v else None)"

section \<open>The WebSocket service (src/script/event/WebSocketService.js)\<close>

text \<open>
  The service object and what it acts on (the socket, the timers of the window, the
  stored expiration of the access token) form one record. A method is a function on that
  record; a handler that the browser calls later (\<open>onopen\<close>, \<open>onmessage\<close>, a timer) is a
  function of its own, applied when the event happens. What leaves the service (log lines,
  published topics, socket and timer calls, notifications delivered) is appended to
  \<open>ws_effects\<close>, and so is every entry into \<open>reconnect\<close>, with its trigger.
\<close>

datatype CHANGE_TRIGGER =
  CLEANUP | CLOSE | ERROR | LOGOUT | OFFLINE | ONLINE | PAGE_NAVIGATION
  | PING_INTERVAL | READY_STATE | WARNING_BAR

fun CHANGE_TRIGGER_text :: "CHANGE_TRIGGER \<Rightarrow> string" where
  "CHANGE_TRIGGER_text CLEANUP = ''WebSocketService.CHANGE_TRIGGER.CLEANUP''"
| "CHANGE_TRIGGER_text CLOSE = ''WebSocketService.CHANGE_TRIGGER.CLOSE''"
| "CHANGE_TRIGGER_text ERROR = ''WebSocketService.CHANGE_TRIGGER.ERROR''"
| "CHANGE_TRIGGER_text LOGOUT = ''WebSocketService.CHANGE_TRIGGER.LOGOUT''"
| "CHANGE_TRIGGER_text OFFLINE = ''WebSocketService.CHANGE_TRIGGER.OFFLINE''"
| "CHANGE_TRIGGER_text ONLINE = ''WebSocketService.CHANGE_TRIGGER.ONLINE''"
| "CHANGE_TRIGGER_text PAGE_NAVIGATION = ''WebSocketService.CHANGE_TRIGGER.PAGE_NAVIGATION''"
| "CHANGE_TRIGGER_text PING_INTERVAL = ''WebSocketService.CHANGE_TRIGGER.PING_INTERVAL''"
| "CHANGE_TRIGGER_text READY_STATE = ''WebSocketService.CHANGE_TRIGGER.READY_STATE''"
| "CHANGE_TRIGGER_text WARNING_BAR = ''WebSocketService.CHANGE_TRIGGER.WARNING_BAR''"

definition UNITS_IN_MILLIS_SECOND :: nat where
  "UNITS_IN_MILLIS_SECOND = 1000"

definition CONFIG_PING_INTERVAL :: nat where
  "CONFIG_PING_INTERVAL = UNITS_IN_MILLIS_SECOND * 5"

definition CONFIG_RECONNECT_INTERVAL :: nat where
  "CONFIG_RECONNECT_INTERVAL = UNITS_IN_MILLIS_SECOND * 15"

datatype js_error = TypeError | SyntaxError

datatype log_level = Debug | Info | Warn | Error

datatype topic =
  ACCESS_TOKEN_RENEW | WARNING_SHOW | WARNING_DISMISS | CONNECTION_ONLINE

text \<open>
  What follows the promise that \<open>connect\<close> returned, once it resolves: the function that
  \<open>reconnect\<close> passes to \<open>then\<close> (it has captured the trigger), or whatever a caller outside
  this class attached.
\<close>

datatype continuation = Reconnect_then CHANGE_TRIGGER | Caller_then

type_synonym callback = nat

text \<open>
  A socket: its url, its ready state (0 connecting, 1 open, 2 closing, 3 closed), whether
  \<open>onerror\<close> and \<open>onclose\<close> are set, the \<open>onNotification\<close> argument that its \<open>onmessage\<close>
  handler has captured, and what its \<open>onopen\<close> handler resolves.
\<close>

record WebSocket =
  sock_url :: string
  sock_readyState :: nat
  sock_onerror :: bool
  sock_onclose :: bool
  sock_onNotification :: "callback option"
  sock_resolve :: continuation

datatype ws_effect =
  Log log_level string
  | Enter_reconnect CHANGE_TRIGGER
  | Publish topic
  | Socket_new string
  | Socket_close
  | Socket_send string
  | Set_interval nat nat
  | Clear_interval "nat option"
  | Set_timeout nat nat
  | Clear_timeout "nat option"
  | Notification callback json
  | Resolved

record WebSocketService =
  clientId :: "string option"
  connectionUrl :: string
  socket :: "WebSocket option"
  onNotification :: "callback option"
  pingIntervalId :: "nat option"
  hasAlreadySentUnansweredPing :: bool
  reconnectTimeoutId :: "nat option"
  reconnectCount :: nat
  pendingReconnectTrigger :: "CHANGE_TRIGGER option"
  webSocketUrl :: string
  accessToken :: string
  storedExpiration :: "int option"
  armed_intervals :: "nat list"
  armed_timeouts :: "(nat \<times> nat \<times> CHANGE_TRIGGER) list"
  next_timer :: nat
  ws_effects :: "ws_effect list"

definition new_WebSocketService :: "string \<Rightarrow> string \<Rightarrow> int option \<Rightarrow> WebSocketService" where
  "new_WebSocketService url token expiration =
     \<lparr>clientId = None, connectionUrl = [], socket = None, onNotification = None,
      pingIntervalId = None, hasAlreadySentUnansweredPing = False,
      reconnectTimeoutId = None, reconnectCount = 0, pendingReconnectTrigger = None,
      webSocketUrl = url, accessToken = token, storedExpiration = expiration,
      armed_intervals = [], armed_timeouts = [], next_timer = 1, ws_effects = []\<rparr>"

definition emit :: "ws_effect \<Rightarrow> WebSocketService \<Rightarrow> WebSocketService" where
  "emit e s = s\<lparr>ws_effects := ws_effects s @ [e]\<rparr>"

text \<open>
  \<open>loadValue(StorageKey.AUTH.ACCESS_TOKEN.EXPIRATION)\<close> reads the \<open>storedExpiration\<close>: a
  number, or \<open>undefined\<close> (\<open>None\<close>) when nothing is stored or what was stored has expired.
  A number is truthy unless it is zero.
\<close>

definition loadValue_EXPIRATION :: "WebSocketService \<Rightarrow> bool" where
  "loadValue_EXPIRATION s = (case storedExpiration s of None \<Rightarrow> False | Some v \<Rightarrow> v \<noteq> 0)"

text \<open>
  Modelled from the spec: \<open>appendParameter\<close> of Util/UrlUtil is not part of these sources; the
  endpoint is \<open><base>/await?access_token=<token>[&client=<clientId>]\<close>.
\<close>

definition appendParameter :: "string \<Rightarrow> string \<Rightarrow> string" where
  "appendParameter url parameter = url @ ''&'' @ parameter"

definition clearInterval :: "nat option \<Rightarrow> WebSocketService \<Rightarrow> WebSocketService" where
  "clearInterval h s =
     emit (Clear_interval h)
       (case h of None \<Rightarrow> s
        | Some i \<Rightarrow> s\<lparr>armed_intervals := removeAll i (armed_intervals s)\<rparr>)"

definition clearTimeout :: "nat option \<Rightarrow> WebSocketService \<Rightarrow> WebSocketService" where
  "clearTimeout h s =
     emit (Clear_timeout h)
       (case h of None \<Rightarrow> s
        | Some i \<Rightarrow> s\<lparr>armed_timeouts := filter (\<lambda>t. fst t \<noteq> i) (armed_timeouts s)\<rparr>)"

text \<open>\<open>socket.close()\<close>: a socket that is not closed yet becomes closing.\<close>

definition socket_close :: "WebSocket \<Rightarrow> WebSocket" where
  "socket_close sock =
     (if sock_readyState sock = 3 then sock else sock\<lparr>sock_readyState := 2\<rparr>)"

text \<open>The first statement of \<open>reset\<close>: all that \<open>reset(trigger)\<close> does when \<open>reconnect\<close> is false.\<close>

definition reset_socket :: "CHANGE_TRIGGER \<Rightarrow> WebSocketService \<Rightarrow> WebSocketService" where
  "reset_socket trigger s =
     (case socket s of
        None \<Rightarrow> s
      | Some sock \<Rightarrow>
          if sock_onclose sock then
            (let s1 = emit (Log Info ''WebSocket reset triggered by'') s;
                 sock1 = socket_close (sock\<lparr>sock_onerror := False, sock_onclose := False\<rparr>);
                 s2 = emit Socket_close (s1\<lparr>socket := Some sock1\<rparr>);
                 s3 = clearInterval (pingIntervalId s2) s2;
                 s4 = clearTimeout (reconnectTimeoutId s3) s3
             in s4\<lparr>hasAlreadySentUnansweredPing := False\<rparr>)
          else s)"

text \<open>
  \<open>connect\<close>, up to the return of the promise; \<open>k\<close> is what the caller attaches to it. A
  client id is used when it is a non-empty string.
\<close>

definition connect ::
  "callback option \<Rightarrow> continuation \<Rightarrow> WebSocketService \<Rightarrow> WebSocketService" where
  "connect onNotif k s =
     (let s1 = s\<lparr>onNotification := onNotif\<rparr>;
          url = webSocketUrl s1 @ ''/await?access_token='' @ accessToken s1;
          url1 = (case clientId s1 of
                    None \<Rightarrow> url
                  | Some c \<Rightarrow> if c = [] then url else appendParameter url (''client='' @ c));
          s2 = s1\<lparr>connectionUrl := url1\<rparr>;
          wrongSocketType = (socket s2 \<noteq> None);
          s3 = (if wrongSocketType then reset_socket CLEANUP s2 else s2);
          sock = \<lparr>sock_url = connectionUrl s3, sock_readyState = 0, sock_onerror = True,
                  sock_onclose = True, sock_onNotification = onNotif, sock_resolve = k\<rparr>
      in emit (Socket_new (connectionUrl s3)) (s3\<lparr>socket := Some sock\<rparr>))"

definition reconnected :: "WebSocketService \<Rightarrow> WebSocketService" where
  "reconnected s =
     emit (Publish CONNECTION_ONLINE)
       (emit (Log Warn ''Re-established WebSocket connection. Recovering from Notification Stream...'')
         (emit (Publish WARNING_DISMISS) s))"

text \<open>The function \<open>reconnect\<close> that the method \<open>reconnect\<close> defines and calls or schedules.\<close>

definition reconnect_attempt :: "CHANGE_TRIGGER \<Rightarrow> WebSocketService \<Rightarrow> WebSocketService" where
  "reconnect_attempt trigger s =
     connect (onNotification s) (Reconnect_then trigger)
       (emit (Log Info ''Trying to re-establish WebSocket connection.'') s)"

definition reconnect :: "CHANGE_TRIGGER \<Rightarrow> WebSocketService \<Rightarrow> WebSocketService" where
  "reconnect trigger s0 =
     (let s = emit (Enter_reconnect trigger) s0
      in if \<not> loadValue_EXPIRATION s then
           (let s1 = emit (Log Info ''Access token has to be refreshed before reconnecting the WebSocket'') s;
                s2 = s1\<lparr>pendingReconnectTrigger := Some trigger\<rparr>
            in emit (Publish ACCESS_TOKEN_RENEW) s2)
         else
           (let s1 = s\<lparr>reconnectCount := reconnectCount s + 1\<rparr>;
                isFirstReconnectAttempt = (reconnectCount s1 = 1)
            in if isFirstReconnectAttempt then reconnect_attempt trigger s1
               else
                 (let i = next_timer s1;
                      s2 = s1\<lparr>next_timer := i + 1,
                              armed_timeouts :=
                                armed_timeouts s1 @ [(i, CONFIG_RECONNECT_INTERVAL, trigger)]\<rparr>;
                      s3 = emit (Set_timeout i CONFIG_RECONNECT_INTERVAL) s2
                  in s3\<lparr>reconnectTimeoutId := Some i\<rparr>)))"

text \<open>A timeout that \<open>reconnect\<close> armed goes off (a timeout that is not armed does nothing).\<close>

definition reconnect_timeout_fires :: "nat \<Rightarrow> WebSocketService \<Rightarrow> WebSocketService" where
  "reconnect_timeout_fires i s =
     (case filter (\<lambda>t. fst t = i) (armed_timeouts s) of
        [] \<Rightarrow> s
      | t # ts \<Rightarrow>
          reconnect_attempt (snd (snd t))
            (s\<lparr>armed_timeouts := filter (\<lambda>t. fst t \<noteq> i) (armed_timeouts s)\<rparr>))"

definition pendingReconnect :: "WebSocketService \<Rightarrow> WebSocketService" where
  "pendingReconnect s =
     (case pendingReconnectTrigger s of
        None \<Rightarrow> s
      | Some trigger \<Rightarrow>
          if CHANGE_TRIGGER_text trigger = [] then s
          else
            (let s1 = emit (Log Info ''Reconnecting WebSocket after access token refresh'') s;
                 s2 = reconnect trigger s1
             in s2\<lparr>pendingReconnectTrigger := None\<rparr>))"

definition reset :: "CHANGE_TRIGGER \<Rightarrow> bool \<Rightarrow> WebSocketService \<Rightarrow> WebSocketService" where
  "reset trigger reconn s =
     (let s1 = reset_socket trigger s
      in if reconn then reconnect trigger (emit (Publish WARNING_SHOW) s1) else s1)"

text \<open>
  \<open>sendPing\<close>, which the interval timer calls. Reading \<open>this.socket.readyState\<close> with no
  socket is a \<open>TypeError\<close>. The result is the error thrown, if any, and the state.
\<close>

definition sendPing :: "WebSocketService \<Rightarrow> js_error option \<times> WebSocketService" where
  "sendPing s =
     (case socket s of
        None \<Rightarrow> (Some TypeError, s)
      | Some sock \<Rightarrow>
          (let isReadyStateOpen = (sock_readyState sock = 1)
           in if isReadyStateOpen then
                (if hasAlreadySentUnansweredPing s then
                   (None, reconnect PING_INTERVAL (emit (Log Warn ''Ping interval check failed'') s))
                 else
                   (let s1 = emit (Log Info ''Sending ping to WebSocket'') s;
                        s2 = s1\<lparr>hasAlreadySentUnansweredPing := True\<rparr>
                    in (None, emit (Socket_send ''ping'') s2)))
              else
                (None, reconnect READY_STATE
                   (emit (Log Warn ''WebSocket connection is closed.'') s))))"

text \<open>The handlers that \<open>connect\<close> sets on the socket, for the socket of the service.\<close>

definition socket_onopen :: "WebSocketService \<Rightarrow> WebSocketService" where
  "socket_onopen s =
     (case socket s of
        None \<Rightarrow> s
      | Some sock \<Rightarrow>
          (let s1 = emit (Log Info ''Connected WebSocket to'')
                      (s\<lparr>socket := Some (sock\<lparr>sock_readyState := 1\<rparr>)\<rparr>);
               i = next_timer s1;
               s2 = emit (Set_interval i CONFIG_PING_INTERVAL)
                      (s1\<lparr>next_timer := i + 1, armed_intervals := armed_intervals s1 @ [i]\<rparr>);
               s3 = s2\<lparr>pingIntervalId := Some i\<rparr>
           in case sock_resolve sock of
                Caller_then \<Rightarrow> emit Resolved s3
              | Reconnect_then trigger \<Rightarrow>
                  reconnected
                    (emit (Log Info ''Reconnect to WebSocket triggered by'')
                       (s3\<lparr>reconnectCount := 0\<rparr>))))"

definition socket_onerror :: "WebSocketService \<Rightarrow> WebSocketService" where
  "socket_onerror s = reset ERROR True (emit (Log Error ''WebSocket connection error.'') s)"

definition socket_onclose :: "WebSocketService \<Rightarrow> WebSocketService" where
  "socket_onclose s = reset CLOSE True (emit (Log Warn ''Closed WebSocket connection'') s)"

text \<open>
  A frame carries a \<open>Blob\<close>, given by the text that reading it yields, or data of another
  kind. \<open>blobReader_onload\<close> is the handler that runs when the text has been read.
\<close>

datatype frame = Blob string | Other_data string

definition blobReader_onload ::
  "callback option \<Rightarrow> string \<Rightarrow> WebSocketService \<Rightarrow> js_error option \<times> WebSocketService" where
  "blobReader_onload onNotif result s =
     (if result = ''pong'' then (None, s\<lparr>hasAlreadySentUnansweredPing := False\<rparr>)
      else case JSON_parse result of
             None \<Rightarrow> (Some SyntaxError, s)
           | Some v \<Rightarrow>
               (case onNotif of
                  None \<Rightarrow> (Some TypeError, s)
                | Some f \<Rightarrow> (None, emit (Notification f v) s)))"

definition socket_onmessage :: "frame \<Rightarrow> WebSocketService \<Rightarrow> js_error option \<times> WebSocketService" where
  "socket_onmessage data s =
     (case socket s of
        None \<Rightarrow> (None, s)
      | Some sock \<Rightarrow>
          (case data of
             Blob txt \<Rightarrow> blobReader_onload (sock_onNotification sock) txt s
           | Other_data d \<Rightarrow> (None, s)))"

text \<open>Read from the effects: the triggers that \<open>reconnect\<close> was entered with, in order.\<close>

definition reconnects_entered :: "ws_effect list \<Rightarrow> CHANGE_TRIGGER list" where
  "reconnects_entered es =
     concat (map (\<lambda>e. case e of Enter_reconnect t \<Rightarrow> [t] | _ \<Rightarrow> []) es)"

fun is_Socket_new :: "ws_effect \<Rightarrow> bool" where
  "is_Socket_new (Socket_new u) = True"
| "is_Socket_new e = False"

fun is_Log :: "ws_effect \<Rightarrow> bool" where
  "is_Log (Log l m) = True"
| "is_Log e = False"

fun is_Notification :: "ws_effect \<Rightarrow> bool" where
  "is_Notification (Notification f v) = True"
| "is_Notification e = False"

fun is_Set_timeout :: "ws_effect \<Rightarrow> bool" where
  "is_Set_timeout (Set_timeout i d) = True"
| "is_Set_timeout e = False"

section \<open>The calling repository (class CallingRepository)\<close>

text \<open>
  The repository object, the calling API it drives and the timers it arms form one
  record. \<open>callingApi\<close> and \<open>wUser\<close> are set together by \<open>initAvs\<close> and are \<open>undefined\<close>
  (\<open>None\<close>) before; the API's \<open>create\<close> and \<open>start\<close> are \<open>callCreate\<close> and \<open>callStart\<close> of
  callAPI.ts. The other functions of the API (\<open>recv_msg\<close>, \<open>end\<close>, \<open>config_update\<close>) are
  not part of these sources: a call of one is recorded as an effect. What the engine does
  with a message inside \<open>recv_msg\<close> is an argument of the model: the calls it makes of the
  handlers that the repository has registered, and the code it returns. Times are in
  milliseconds.
\<close>

datatype CallError = NOT_SUPPORTED | WRONG_STATE | MISTARGETED_MESSAGE | NOT_FOUND

text \<open>The media types that these sources name, and one for every other value.\<close>

datatype MediaType = AUDIO | AUDIO_VIDEO | SCREEN | OTHER_MEDIA

datatype TERMINATION_REASON = MISSED

record Conversation =
  conv_id :: string
  conv_isGroup :: bool
  participating_user_ids :: "string list"
  supportsVideoCall :: "bool \<Rightarrow> bool"

text \<open>An entry of the observable array \<open>activeCalls\<close> of the repository.\<close>

record ActiveCall =
  ac_conversationId :: string
  ac_reason :: "nat option"
  ac_startedAt :: "int option"
  ac_state :: CALL_STATE

text \<open>An event from the backend: its \<open>content\<close> (as text) with the \<open>type\<close> in it, and the rest.\<close>

record CallEvent =
  ev_content :: string
  ev_content_type :: string
  ev_conversation :: string
  ev_from :: string
  ev_sender :: string
  ev_time :: int

datatype VoiceChannelEvent =
  VoiceChannelActivate string string int
  | VoiceChannelDeactivate string string TERMINATION_REASON int

text \<open>What the backend answers to \<open>fetchConfig\<close>, and the same with the \<open>expiration\<close> set.\<close>

record ConfigResponse =
  ice_servers :: "string list list"
  ttl :: "rat option"

record CallingConfig = ConfigResponse +
  expiration :: int

text \<open>
  A call that the engine makes of a handler registered by \<open>configureCallingApi\<close>: the state
  handler (with the conversation, the state and the time \<open>Date.now()\<close> of the call), the
  close handler (with the reason and the conversation) or the mute handler. The reaction
  of the engine to a message is the list of these calls and the code returned.
\<close>

datatype engine_call =
  State_changed string CALL_STATE int
  | Call_closed nat string
  | Mute_changed bool

record engine_reaction =
  er_calls :: "engine_call list"
  er_result :: int

datatype repo_effect =
  Modal_acknowledge string string
  | Warning_unsupported_outgoing_call
  | Call_log log_level string
  | Recv_msg string nat int int string string string
  | Api_end string
  | Inject_event VoiceChannelEvent string
  | Fetch_config "nat option"
  | Set_config_timeout nat rat
  | Clear_config_timeout nat
  | Config_update "CallingConfig option"

record CallingRepository =
  wUser :: "WUser option"
  callingApi :: "CallState option"
  repo_activeCalls :: "ActiveCall list"
  isMuted :: bool
  callingConfig :: "CallingConfig option"
  callingConfigTimeout :: "nat option"
  supportsCalling :: bool
  browser_firefox :: bool
  config_timers :: "(nat \<times> rat) list"
  repo_next_timer :: nat
  repo_effects :: "repo_effect list"

definition DEFAULT_CONFIG_TTL :: rat where
  "DEFAULT_CONFIG_TTL = 60 * 60"

definition MAX_FIREFOX_TURN_COUNT :: nat where
  "MAX_FIREFOX_TURN_COUNT = 3"

definition new_CallingRepository :: "bool \<Rightarrow> bool \<Rightarrow> CallingRepository" where
  "new_CallingRepository calling firefox =
     \<lparr>wUser = None, callingApi = None, repo_activeCalls = [], isMuted = False,
      callingConfig = None, callingConfigTimeout = None, supportsCalling = calling,
      browser_firefox = firefox, config_timers = [], repo_next_timer = 1, repo_effects = []\<rparr>"

definition repo_emit :: "repo_effect \<Rightarrow> CallingRepository \<Rightarrow> CallingRepository" where
  "repo_emit e r = r\<lparr>repo_effects := repo_effects r @ [e]\<rparr>"

definition findCall :: "string \<Rightarrow> CallingRepository \<Rightarrow> ActiveCall option" where
  "findCall conversationId r =
     find (\<lambda>callInstance. ac_conversationId callInstance = conversationId) (repo_activeCalls r)"

definition storeCall :: "ActiveCall \<Rightarrow> CallingRepository \<Rightarrow> CallingRepository" where
  "storeCall call r = r\<lparr>repo_activeCalls := repo_activeCalls r @ [call]\<rparr>"

text \<open>
  \<open>removeCall\<close> removes the entry at the index of the object given. The object is one that
  \<open>findCall\<close> has found, the first entry of its conversation, so no entry before it is
  equal to it.
\<close>

definition removeCall :: "ActiveCall option \<Rightarrow> CallingRepository \<Rightarrow> CallingRepository" where
  "removeCall call r =
     (case call of None \<Rightarrow> r
      | Some c \<Rightarrow> r\<lparr>repo_activeCalls := remove1 c (repo_activeCalls r)\<rparr>)"

text \<open>
  The entries are objects that the handlers change in place: the first entry that a test
  holds of is replaced by its changed value.
\<close>

fun update_first :: "('a \<Rightarrow> bool) \<Rightarrow> ('a \<Rightarrow> 'a) \<Rightarrow> 'a list \<Rightarrow> 'a list" where
  "update_first p f [] = []"
| "update_first p f (x # xs) = (if p x then f x # xs else x # update_first p f xs)"

text \<open>The handler that \<open>configureCallingApi\<close> passes to \<open>set_state_handler\<close>.\<close>

definition state_handler ::
  "string \<Rightarrow> CALL_STATE \<Rightarrow> int \<Rightarrow> CallingRepository \<Rightarrow> CallingRepository" where
  "state_handler conversationId state now r =
     (let storedCall = findCall conversationId r;
          same = (\<lambda>c. ac_conversationId c = conversationId);
          assign = (\<lambda>c. c\<lparr>ac_state := state, ac_reason := None\<rparr>);
          over = (state = TERM_REMOTE \<or> state = TERM_LOCAL \<or> state = NONE)
      in case storedCall of
           Some c \<Rightarrow>
             (let r1 = r\<lparr>repo_activeCalls := update_first same assign (repo_activeCalls r)\<rparr>
              in if over then removeCall (Some (assign c)) r1
                 else if state = MEDIA_ESTAB then
                   r1\<lparr>repo_activeCalls :=
                        update_first same (\<lambda>c. c\<lparr>ac_startedAt := Some now\<rparr>)
                          (repo_activeCalls r1)\<rparr>
                 else r1)
         | None \<Rightarrow>
             (let call = assign \<lparr>ac_conversationId = conversationId, ac_reason = None,
                                  ac_startedAt = None, ac_state = state\<rparr>
              in if over then removeCall None r
                 else if state = MEDIA_ESTAB then storeCall (call\<lparr>ac_startedAt := Some now\<rparr>) r
                 else storeCall call r))"

text \<open>The handler \<open>callClosed\<close>, passed to \<open>create\<close> as the close handler.\<close>

definition callClosed :: "nat \<Rightarrow> string \<Rightarrow> CallingRepository \<Rightarrow> CallingRepository" where
  "callClosed reason conversationId r =
     (case findCall conversationId r of
        None \<Rightarrow> r
      | Some c \<Rightarrow>
          r\<lparr>repo_activeCalls :=
               update_first (\<lambda>c. ac_conversationId c = conversationId)
                 (\<lambda>c. c\<lparr>ac_reason := Some reason\<rparr>) (repo_activeCalls r)\<rparr>)"

text \<open>The handler passed to \<open>set_mute_handler\<close>.\<close>

definition mute_handler :: "bool \<Rightarrow> CallingRepository \<Rightarrow> CallingRepository" where
  "mute_handler muted r = r\<lparr>isMuted := muted\<rparr>"

fun engine_calls :: "engine_call \<Rightarrow> CallingRepository \<Rightarrow> CallingRepository" where
  "engine_calls (State_changed conversationId state now) r = state_handler conversationId state now r"
| "engine_calls (Call_closed reason conversationId) r = callClosed reason conversationId r"
| "engine_calls (Mute_changed muted) r = mute_handler muted r"

fun run_engine_calls :: "engine_call list \<Rightarrow> CallingRepository \<Rightarrow> CallingRepository" where
  "run_engine_calls [] r = r"
| "run_engine_calls (h # hs) r = run_engine_calls hs (engine_calls h r)"


definition toSecond :: "int \<Rightarrow> int" where
  "toSecond timestamp = timestamp div 1000"

definition injectActivateEvent ::
  "string \<Rightarrow> string \<Rightarrow> int \<Rightarrow> string \<Rightarrow> CallingRepository \<Rightarrow> CallingRepository" where
  "injectActivateEvent conversationId userId time source r =
     repo_emit (Inject_event (VoiceChannelActivate conversationId userId time) source) r"

definition injectDeactivateEvent ::
  "string \<Rightarrow> string \<Rightarrow> TERMINATION_REASON \<Rightarrow> int \<Rightarrow> string \<Rightarrow> CallingRepository
     \<Rightarrow> CallingRepository" where
  "injectDeactivateEvent conversationId userId reason time source r =
     repo_emit (Inject_event (VoiceChannelDeactivate conversationId userId reason time) source) r"

text \<open>
  \<open>onCallEvent\<close>. \<open>currentTimestamp\<close> is what the server time handler answers and
  \<open>reaction\<close> what the engine does with this message inside \<open>recv_msg\<close>: the handlers it
  calls run first, then \<open>recv_msg\<close> returns its code. The result is the error thrown, if
  any, and the state.
\<close>

definition onCallEvent ::
  "CallEvent \<Rightarrow> string \<Rightarrow> int \<Rightarrow> engine_reaction \<Rightarrow> CallingRepository
     \<Rightarrow> js_error option \<times> CallingRepository" where
  "onCallEvent event source currentTimestamp reaction r =
     (let conversationId = ev_conversation event;
          userId = ev_from event;
          clientId = ev_sender event;
          time = ev_time event;
          contentStr = ev_content event
      in case callingApi r of
           None \<Rightarrow> (Some TypeError, r)
         | Some api \<Rightarrow>
             (let r0 = repo_emit (Recv_msg contentStr (length contentStr)
                          (toSecond currentTimestamp) (toSecond time)
                          conversationId userId clientId) r;
                  r1 = run_engine_calls (er_calls reaction) r0;
                  res = er_result reaction
              in if res \<noteq> 0 then (None, repo_emit (Call_log Warn ''recv_msg failed with code'') r1)
                 else if ev_content_type event = ''SETUP''
                   then (None, injectActivateEvent conversationId userId time source r1)
                 else if ev_content_type event = ''CANCEL''
                   then (let reason = MISSED
                         in (None, injectDeactivateEvent conversationId userId reason time source r1))
                 else (None, r1)))"

definition callTypeFromMediaType :: "MediaType \<Rightarrow> CALL_TYPE" where
  "callTypeFromMediaType mediaType =
     (case mediaType of AUDIO \<Rightarrow> NORMAL | AUDIO_VIDEO \<Rightarrow> VIDEO | SCREEN \<Rightarrow> VIDEO
      | OTHER_MEDIA \<Rightarrow> NORMAL)"

definition startCall ::
  "string \<Rightarrow> CONVERSATION_TYPE \<Rightarrow> CALL_TYPE \<Rightarrow> CallingRepository
     \<Rightarrow> js_error option \<times> CallingRepository" where
  "startCall conversationId conversationType callType r =
     (case (callingApi r, wUser r) of
        (Some api, Some u) \<Rightarrow>
          (None, r\<lparr>callingApi :=
                     Some (snd (callStart u conversationId callType conversationType False api))\<rparr>)
      | _ \<Rightarrow> (Some TypeError, r))"

definition leaveCall :: "string \<Rightarrow> CallingRepository \<Rightarrow> js_error option \<times> CallingRepository" where
  "leaveCall conversationId r =
     (case callingApi r of
        None \<Rightarrow> (Some TypeError, r)
      | Some api \<Rightarrow> (None, repo_emit (Api_end conversationId) r))"

definition toggleState ::
  "MediaType \<Rightarrow> Conversation option \<Rightarrow> CallingRepository
     \<Rightarrow> js_error option \<times> CallingRepository" where
  "toggleState mediaType conversationEntity r =
     (case conversationEntity of
        None \<Rightarrow> (None, r)
      | Some c \<Rightarrow>
          (let isActiveCall = False;
               isGroupCall = (if conv_isGroup c then GROUP else ONEONONE);
               callType = callTypeFromMediaType mediaType
           in if isActiveCall then leaveCall (conv_id c) r
              else startCall (conv_id c) isGroupCall callType r))"

definition showModal :: "string \<Rightarrow> string \<Rightarrow> CallingRepository \<Rightarrow> CallingRepository" where
  "showModal title message r = repo_emit (Modal_acknowledge title message) r"

text \<open>
  The private method \<open>_checkCallingSupport\<close>: the promise it returns is rejected with the
  error given (\<open>Some\<close>) or resolved (\<open>None\<close>).
\<close>

definition checkCallingSupport ::
  "Conversation \<Rightarrow> MediaType \<Rightarrow> CALL_STATE \<Rightarrow> CallingRepository
     \<Rightarrow> CallError option \<times> CallingRepository" where
  "checkCallingSupport conversationEntity mediaType callState r =
     (let noConversationParticipants = (length (participating_user_ids conversationEntity) = 0)
      in if noConversationParticipants then
           (Some NOT_SUPPORTED,
            showModal ''modalCallEmptyConversationHeadline'' ''modalCallEmptyConversationMessage'' r)
         else
           (let isOutgoingCall = (callState = OUTGOING)
            in if isOutgoingCall \<and> \<not> supportsCalling r then
                 (Some NOT_SUPPORTED, repo_emit Warning_unsupported_outgoing_call r)
               else
                 (let isVideoCall = (mediaType = AUDIO_VIDEO)
                  in if isVideoCall \<and> \<not> supportsVideoCall conversationEntity isOutgoingCall then
                       (Some NOT_SUPPORTED,
                        showModal ''modalCallNoGroupVideoHeadline'' ''modalCallNoGroupVideoMessage'' r)
                     else (None, r))))"

subsection \<open>The calling configuration\<close>

text \<open>
  \<open>getConfig\<close> answers with the stored configuration, or waits for the backend: the fetch is
  an effect, and \<open>getConfigFromBackend_then\<close> is the function that runs when the answer is
  there. \<open>now\<close> is \<open>Date.now()\<close>. The numbers of the source are taken as exact rationals;
  the time value of a \<open>Date\<close> is the number given without its fraction.
\<close>

datatype config_result = Local CallingConfig | Backend "nat option"

definition clearConfig :: "CallingRepository \<Rightarrow> CallingRepository" where
  "clearConfig r =
     (case callingConfig r of
        None \<Rightarrow> r
      | Some c \<Rightarrow>
          (repo_emit (Call_log Debug ''Removing calling configuration with expiration of'') r)
            \<lparr>callingConfig := None\<rparr>)"

definition clearConfigTimeout :: "CallingRepository \<Rightarrow> CallingRepository" where
  "clearConfigTimeout r =
     (case callingConfigTimeout r of
        None \<Rightarrow> r
      | Some i \<Rightarrow>
          if i = 0 then r
          else (repo_emit (Clear_config_timeout i) r)
                 \<lparr>config_timers := filter (\<lambda>t. fst t \<noteq> i) (config_timers r),
                  callingConfigTimeout := None\<rparr>)"

definition fetchConfig :: "nat option \<Rightarrow> CallingRepository \<Rightarrow> CallingRepository" where
  "fetchConfig limit r = repo_emit (Fetch_config limit) r"

definition getConfigFromBackend :: "CallingRepository \<Rightarrow> config_result \<times> CallingRepository" where
  "getConfigFromBackend r =
     (let limit = (if browser_firefox r then Some MAX_FIREFOX_TURN_COUNT else None)
      in (Backend limit, fetchConfig limit r))"

definition getConfig :: "int \<Rightarrow> CallingRepository \<Rightarrow> config_result \<times> CallingRepository" where
  "getConfig now r =
     (case callingConfig r of
        Some c \<Rightarrow>
          (let isExpiredConfig = (expiration c < now)
           in if \<not> isExpiredConfig then
                (Local c,
                 repo_emit (Call_log Debug
                   ''Returning local calling configuration. No update needed.'') r)
              else getConfigFromBackend (clearConfig r))
      | None \<Rightarrow> getConfigFromBackend r)"

definition Date_time :: "rat \<Rightarrow> int" where
  "Date_time q = (if 0 \<le> q then \<lfloor>q\<rfloor> else \<lceil>q\<rceil>)"

definition config_ttl :: "ConfigResponse \<Rightarrow> rat" where
  "config_ttl response =
     (case ttl response of
        None \<Rightarrow> DEFAULT_CONFIG_TTL
      | Some t \<Rightarrow> if t * (9 / 10) = 0 then DEFAULT_CONFIG_TTL else t * (9 / 10))"

definition config_timeout :: "ConfigResponse \<Rightarrow> rat" where
  "config_timeout response =
     min (config_ttl response) DEFAULT_CONFIG_TTL * of_nat UNITS_IN_MILLIS_SECOND"

definition getConfigFromBackend_then ::
  "int \<Rightarrow> ConfigResponse option \<Rightarrow> CallingRepository
     \<Rightarrow> CallingConfig option \<times> CallingRepository" where
  "getConfigFromBackend_then now response r =
     (case response of
        None \<Rightarrow> (None, r)
      | Some fetched \<Rightarrow>
          (let r1 = clearConfigTimeout r;
               timeout = config_timeout fetched;
               expirationDate = Date_time (of_int now + timeout);
               stored = \<lparr>ice_servers = ice_servers fetched, ttl = ttl fetched,
                         expiration = expirationDate\<rparr>;
               r2 = repo_emit (Call_log Info ''Updated calling configuration expires on'') r1;
               r3 = r2\<lparr>callingConfig := Some stored\<rparr>;
               i = repo_next_timer r3;
               r4 = repo_emit (Set_config_timeout i timeout)
                      (r3\<lparr>repo_next_timer := i + 1,
                          config_timers := config_timers r3 @ [(i, timeout)]\<rparr>)
           in (Some stored, r4\<lparr>callingConfigTimeout := Some i\<rparr>)))"

text \<open>
  The handler \<open>requestConfig\<close> of \<open>configureCallingApi\<close>, which asks for the configuration
  and returns 0, and the function it attaches to the promise of \<open>getConfig\<close>, which hands
  the configuration (or \<open>undefined\<close>, when the backend sent none) to the API.
\<close>

definition requestConfig :: "int \<Rightarrow> CallingRepository \<Rightarrow> CallingRepository" where
  "requestConfig now r = snd (getConfig now r)"

definition requestConfig_then ::
  "CallingConfig option \<Rightarrow> CallingRepository \<Rightarrow> CallingRepository" where
  "requestConfig_then config r = repo_emit (Config_update config) r"

text \<open>
  \<open>initAvs\<close>, when the promises it waits for have resolved: \<open>configureCallingApi\<close> has the
  API create the user, which calls the handler \<open>requestConfig\<close> at once, and registers the
  handlers above; then the API and the user are stored.
\<close>

definition initAvs ::
  "string \<Rightarrow> string \<Rightarrow> int \<Rightarrow> CallingRepository \<Rightarrow> CallingRepository" where
  "initAvs selfUserId selfClientId now r =
     (let created = callCreate selfUserId selfClientId initial_CallState;
          r1 = requestConfig now r
      in r1\<lparr>callingApi := Some (snd created), wUser := Some (fst created)\<rparr>)"

text \<open>The function that \<open>_getConfigFromBackend\<close> arms with \<open>window.setTimeout\<close> goes off.\<close>

definition config_timeout_fires :: "nat \<Rightarrow> int \<Rightarrow> CallingRepository \<Rightarrow> CallingRepository" where
  "config_timeout_fires i now r =
     (if i \<in> fst ` set (config_timers r) then
        snd (getConfig now
               (clearConfig (r\<lparr>config_timers := filter (\<lambda>t. fst t \<noteq> i) (config_timers r)\<rparr>)))
      else r)"

text \<open>Whether an effect is a fetch of the configuration, or an event handed to the event repository.\<close>

fun is_Fetch_config :: "repo_effect \<Rightarrow> bool" where
  "is_Fetch_config (Fetch_config l) = True"
| "is_Fetch_config e = False"


section \<open>Example states\<close>

text \<open>Concrete users, services and repositories, at which the theorems below are evaluated.\<close>

definition example_user :: WUser where
  "example_user = \<lparr>wu_userId = ''user'', wu_clientId = ''client''\<rparr>"


definition example_first_start :: CallState where
  "example_first_start =
     snd (callStart example_user ''conv'' NORMAL ONEONONE False initial_CallState)"

definition example_second_start :: "bool \<times> CallState" where
  "example_second_start = callStart example_user ''conv'' VIDEO GROUP True example_first_start"

definition example_service :: WebSocketService where
  "example_service = new_WebSocketService ''wss://example.test'' ''token'' (Some 1)"

definition example_open_service :: WebSocketService where
  "example_open_service = socket_onopen (connect (Some 0) Caller_then example_service)"

definition example_unanswered_service :: WebSocketService where
  "example_unanswered_service = snd (sendPing example_open_service)"

definition example_dropped_service :: WebSocketService where
  "example_dropped_service = socket_onclose example_open_service"

definition example_expired_service :: WebSocketService where
  "example_expired_service = example_unanswered_service\<lparr>storedExpiration := None\<rparr>"

definition example_renewed_service :: WebSocketService where
  "example_renewed_service =
     (reconnect PING_INTERVAL example_expired_service)\<lparr>storedExpiration := Some 1\<rparr>"

definition example_empty_conversation :: Conversation where
  "example_empty_conversation =
     \<lparr>conv_id = ''conv'', conv_isGroup = False, participating_user_ids = [],
      supportsVideoCall = (\<lambda>isOutgoing. True)\<rparr>"

definition example_repository :: CallingRepository where
  "example_repository = initAvs ''user'' ''client'' 0 (new_CallingRepository True False)"

text \<open>A text between double quotes.\<close>

definition quoted :: "string \<Rightarrow> string" where
  "quoted s = CHR 0x22 # s @ [CHR 0x22]"

definition example_response :: ConfigResponse where
  "example_response = \<lparr>ice_servers = [[''turn:example.test:3478'']], ttl = Some 100\<rparr>"

definition example_configured_repository :: CallingRepository where
  "example_configured_repository =
     snd (getConfigFromBackend_then 1000000 (Some example_response) example_repository)"


definition example_ending_reaction :: engine_reaction where
  "example_ending_reaction =
     \<lparr>er_calls = [State_changed ''conv'' TERM_REMOTE 2000], er_result = 0\<rparr>"


text \<open>The repository after the engine has reported an incoming call in \<open>conv\<close>.\<close>

definition example_incoming_repository :: CallingRepository where
  "example_incoming_repository = state_handler ''conv'' INCOMING 500 example_repository"

definition example_cancel_event :: CallEvent where
  "example_cancel_event =
     \<lparr>ev_content = ''{'' @ quoted ''type'' @ '':'' @ quoted ''CANCEL'' @ ''}'',
      ev_content_type = ''CANCEL'', ev_conversation = ''conv'', ev_from = ''remote-user'',
      ev_sender = ''remote-client'', ev_time = 1000\<rparr>"

section \<open>The calling API: stored calls and session ids\<close>

lemmas api_defs =
  callStart_def callGetState_def activeCalls_get_def activeCalls_set_def new_WCall_def
  initPeerConnection_def generateCallId_def initial_CallState_def Object_prototype_names_def
  WCall_property_names_def inherited_name_def Let_def




text \<open>
  A name read from \<open>Object.prototype\<close>, with no entry of its own and no call made the
  prototype, yields \<open>undefined\<close>. The identifier \<open>__proto__\<close> stores no entry: the call
  becomes the prototype, and is what that identifier reads afterwards.
\<close>

lemma callGetState_inherited:
  "activeCalls st (generateCallId u c) = None \<Longrightarrow> activeCalls_proto st = None
   \<Longrightarrow> generateCallId u c \<in> set Object_prototype_names \<Longrightarrow> callGetState u c st = None"
  by (simp add: callGetState_def activeCalls_get_def Let_def)

lemma callStart_proto:
  "generateCallId u c = ''__proto__'' \<Longrightarrow>
     activeCalls (snd (callStart u c ct cvt cbr st)) = activeCalls st
     \<and> activeCalls_proto (snd (callStart u c ct cvt cbr st))
         = Some \<lparr>wc_conversationId = c, wc_state = Some OUTGOING, wc_callType = ct,
                 wc_conversationType = cvt, wc_audioCbr = cbr\<rparr>"
  by (simp add: callStart_def activeCalls_set_def new_WCall_def initPeerConnection_def Let_def
      split: property.split)

text \<open>
  Whatever is stored, \<open>callStart\<close> returns \<open>true\<close> and, for an identifier other than
  \<open>__proto__\<close>, stores a new outgoing call under the identifier.
\<close>

lemma callStart_always_stores:
  "fst (callStart u c ct cvt cbr st) = True
   \<and> (generateCallId u c \<noteq> ''__proto__'' \<longrightarrow>
        activeCalls (snd (callStart u c ct cvt cbr st)) (generateCallId u c)
          = Some \<lparr>wc_conversationId = c, wc_state = Some OUTGOING, wc_callType = ct,
                  wc_conversationType = cvt, wc_audioCbr = cbr\<rparr>)"
  by (simp add: callStart_def activeCalls_set_def Let_def new_WCall_def initPeerConnection_def
      split: property.split)

text \<open>
  C1: a second \<open>callStart\<close> for a key whose call is stored in a non-terminal state is to be
  rejected. Evaluated: after a first audio call in \<open>conv\<close> is stored as outgoing, a second
  \<open>callStart\<close> for the same user, client and conversation returns \<open>true\<close> and the entry is now
  the new video call; the first one is gone without having been terminated.
\<close>

theorem callStart_replaces_active_call:
  "map_option wc_state (activeCalls example_first_start (generateCallId example_user ''conv''))
     = Some (Some OUTGOING)
   \<and> \<not> terminal_state (Some OUTGOING)
   \<and> fst example_second_start = True
   \<and> activeCalls (snd example_second_start) (generateCallId example_user ''conv'')
       = Some \<lparr>wc_conversationId = ''conv'', wc_state = Some OUTGOING, wc_callType = VIDEO,
               wc_conversationType = GROUP, wc_audioCbr = True\<rparr>
   \<and> activeCalls (snd example_second_start) (generateCallId example_user ''conv'')
       \<noteq> activeCalls example_first_start (generateCallId example_user ''conv'')"
  by (simp add: example_second_start_def example_first_start_def example_user_def api_defs
      terminal_state_def)

text \<open>
  C8: every session id in the \<open>sessid\<close> field of an outbound payload is to match
  \<open>[A-Za-z0-9_]{4}\<close>. Evaluated: the one message that \<open>callStart\<close> sends carries the session
  id \<open>felix\<close>, for every user, conversation and description; it has five characters and
  does not match.
\<close>

theorem callStart_timeout_sessid_felix:
  "sent_sessids (api_effects (callStart_timeout u c sdp st))
     = sent_sessids (api_effects st) @ [''felix'']
   \<and> length ''felix'' = 5
   \<and> \<not> session_id_pattern ''felix''"
  by (simp add: callStart_timeout_def sent_sessids_def buildMessagePayload_def
      session_id_pattern_def)

text \<open>
  C3: starting a call on a conversation with no participants is to fail with
  \<open>NOT_SUPPORTED\<close> and store no call. Evaluated: for a conversation with no participants the
  check \<open>_checkCallingSupport\<close> does reject with \<open>NOT_SUPPORTED\<close>, but \<open>toggleState\<close> and
  \<open>startCall\<close> never run it: the call is started without an error and an outgoing call is
  stored where there was none.
\<close>

theorem toggleState_empty_conversation_starts_call:
  "participating_user_ids example_empty_conversation = []
   \<and> fst (checkCallingSupport example_empty_conversation AUDIO OUTGOING example_repository)
       = Some NOT_SUPPORTED
   \<and> fst (toggleState AUDIO (Some example_empty_conversation) example_repository) = None
   \<and> map_option (\<lambda>api. activeCalls api ''userclientconv'')
        (callingApi (snd (toggleState AUDIO (Some example_empty_conversation) example_repository)))
       = Some (Some \<lparr>wc_conversationId = ''conv'', wc_state = Some OUTGOING, wc_callType = NORMAL,
               wc_conversationType = ONEONONE, wc_audioCbr = False\<rparr>)
   \<and> map_option (\<lambda>api. activeCalls api ''userclientconv'') (callingApi example_repository)
       = Some None"
  by (simp add: example_empty_conversation_def example_repository_def initAvs_def
      requestConfig_def getConfig_def getConfigFromBackend_def fetchConfig_def callCreate_def
      new_CallingRepository_def checkCallingSupport_def toggleState_def startCall_def
      callTypeFromMediaType_def api_defs showModal_def repo_emit_def)

section \<open>The WebSocket service: keepalive and reconnect\<close>

lemma reconnects_entered_append:
  "reconnects_entered (xs @ ys) = reconnects_entered xs @ reconnects_entered ys"
  by (simp add: reconnects_entered_def)

lemma reconnects_entered_Nil: "reconnects_entered [] = []"
  by (simp add: reconnects_entered_def)

lemma reconnects_entered_Cons:
  "reconnects_entered (e # es)
     = (case e of Enter_reconnect t \<Rightarrow> [t] | _ \<Rightarrow> []) @ reconnects_entered es"
  by (simp add: reconnects_entered_def)

lemmas entered_simps =
  reconnects_entered_append reconnects_entered_Nil reconnects_entered_Cons emit_def

lemma entered_reset_socket:
  "reconnects_entered (ws_effects (reset_socket t s)) = reconnects_entered (ws_effects s)"
  by (simp add: reset_socket_def Let_def clearInterval_def clearTimeout_def entered_simps
      split: option.split)

lemma opened_reset_socket:
  "filter is_Socket_new (ws_effects (reset_socket t s)) = filter is_Socket_new (ws_effects s)"
  by (simp add: reset_socket_def Let_def clearInterval_def clearTimeout_def emit_def
      split: option.split)

lemma entered_connect:
  "reconnects_entered (ws_effects (connect f k s)) = reconnects_entered (ws_effects s)"
  by (simp add: connect_def Let_def entered_simps entered_reset_socket)

lemma opened_connect:
  "filter is_Socket_new (ws_effects (connect f k s))
     = filter is_Socket_new (ws_effects s) @ [Socket_new (connectionUrl (connect f k s))]"
  by (simp add: connect_def Let_def opened_reset_socket emit_def)

lemma entered_reconnect_attempt:
  "reconnects_entered (ws_effects (reconnect_attempt t s)) = reconnects_entered (ws_effects s)"
  by (simp add: reconnect_attempt_def entered_connect entered_simps)

lemma entered_reconnect:
  "reconnects_entered (ws_effects (reconnect t s)) = reconnects_entered (ws_effects s) @ [t]"
  by (simp add: reconnect_def Let_def entered_reconnect_attempt entered_simps)

text \<open>
  With a stored expiration, no reconnect attempt pending and the handlers of the socket in
  place, a ping that finds the one before unanswered clears the interval timer and the
  flag.
\<close>

lemma sendPing_unanswered_stops_keepalive:
  assumes "socket s = Some sock" and "sock_readyState sock = 1"
    and "hasAlreadySentUnansweredPing s" and "loadValue_EXPIRATION s"
    and "reconnectCount s = 0" and "sock_onclose sock" and "pingIntervalId s = Some i"
  shows "i \<notin> set (armed_intervals (snd (sendPing s)))
     \<and> \<not> hasAlreadySentUnansweredPing (snd (sendPing s))"
  using assms
  by (simp add: sendPing_def reconnect_def reconnect_attempt_def connect_def reset_socket_def
      clearInterval_def clearTimeout_def emit_def Let_def loadValue_EXPIRATION_def
      split: option.split)

text \<open>
  C2: when \<open>sendPing\<close> fires on an open socket while the ping sent before is still
  unanswered, it throws nothing and \<open>reconnect\<close> is entered exactly once, with the trigger
  \<open>PING_INTERVAL\<close>: the triggers that \<open>reconnect\<close> has been entered with grow by that one
  entry. When moreover an expiration of the token is stored, no reconnect attempt is
  pending and the handlers of the socket are in place, the same step clears the interval
  timer and the flag, so the timer that found the failure does not fire again.
\<close>

theorem sendPing_unanswered_reconnects_once:
  assumes "socket s = Some sock" and "sock_readyState sock = 1"
    and "hasAlreadySentUnansweredPing s"
  shows "fst (sendPing s) = None
     \<and> reconnects_entered (ws_effects (snd (sendPing s)))
         = reconnects_entered (ws_effects s) @ [PING_INTERVAL]
     \<and> (loadValue_EXPIRATION s \<and> reconnectCount s = 0 \<and> sock_onclose sock \<longrightarrow>
          (\<forall>i. pingIntervalId s = Some i \<longrightarrow> i \<notin> set (armed_intervals (snd (sendPing s))))
          \<and> \<not> hasAlreadySentUnansweredPing (snd (sendPing s)))"
proof -
  have once: "fst (sendPing s) = None
     \<and> reconnects_entered (ws_effects (snd (sendPing s)))
         = reconnects_entered (ws_effects s) @ [PING_INTERVAL]"
    using assms by (simp add: sendPing_def entered_reconnect entered_simps)
  have stops: "loadValue_EXPIRATION s \<Longrightarrow> reconnectCount s = 0 \<Longrightarrow> sock_onclose sock
      \<Longrightarrow> pingIntervalId s = Some i
      \<Longrightarrow> i \<notin> set (armed_intervals (snd (sendPing s)))" for i
    using sendPing_unanswered_stops_keepalive [OF assms] by simp
  have flag: "loadValue_EXPIRATION s \<Longrightarrow> reconnectCount s = 0 \<Longrightarrow> sock_onclose sock
      \<Longrightarrow> \<not> hasAlreadySentUnansweredPing (snd (sendPing s))"
    using assms
    by (simp add: sendPing_def reconnect_def reconnect_attempt_def connect_def reset_socket_def
        clearInterval_def clearTimeout_def emit_def Let_def loadValue_EXPIRATION_def
        split: option.split)
  show ?thesis using once stops flag by blast
qed

lemmas ws_defs =
  new_WebSocketService_def connect_def socket_onopen_def sendPing_def socket_onclose_def
  socket_onerror_def reset_def reset_socket_def reconnect_def reconnect_attempt_def
  reconnected_def pendingReconnect_def clearInterval_def clearTimeout_def socket_close_def
  emit_def loadValue_EXPIRATION_def Let_def CONFIG_PING_INTERVAL_def
  CONFIG_RECONNECT_INTERVAL_def UNITS_IN_MILLIS_SECOND_def

lemma example_unanswered_open:
  "socket example_unanswered_service
     = Some \<lparr>sock_url = ''wss://example.test/await?access_token=token'', sock_readyState = 1,
             sock_onerror = True, sock_onclose = True, sock_onNotification = Some 0,
             sock_resolve = Caller_then\<rparr>
   \<and> hasAlreadySentUnansweredPing example_unanswered_service
   \<and> loadValue_EXPIRATION example_unanswered_service
   \<and> reconnectCount example_unanswered_service = 0
   \<and> pingIntervalId example_unanswered_service = Some 1
   \<and> armed_intervals example_unanswered_service = [1]"
  by (simp add: example_unanswered_service_def example_open_service_def example_service_def
      ws_defs)

theorem sendPing_unanswered_reconnects_once_witness:
  "socket example_unanswered_service
     = Some \<lparr>sock_url = ''wss://example.test/await?access_token=token'', sock_readyState = 1,
             sock_onerror = True, sock_onclose = True, sock_onNotification = Some 0,
             sock_resolve = Caller_then\<rparr>
   \<and> hasAlreadySentUnansweredPing example_unanswered_service
   \<and> loadValue_EXPIRATION example_unanswered_service
   \<and> reconnectCount example_unanswered_service = 0
   \<and> pingIntervalId example_unanswered_service = Some 1
   \<and> armed_intervals example_unanswered_service = [1]
   \<and> fst (sendPing example_unanswered_service) = None
   \<and> reconnects_entered (ws_effects (snd (sendPing example_unanswered_service)))
       = reconnects_entered (ws_effects example_unanswered_service) @ [PING_INTERVAL]
   \<and> 1 \<notin> set (armed_intervals (snd (sendPing example_unanswered_service)))
   \<and> \<not> hasAlreadySentUnansweredPing (snd (sendPing example_unanswered_service))"
  using example_unanswered_open
    sendPing_unanswered_reconnects_once [of example_unanswered_service
      "\<lparr>sock_url = ''wss://example.test/await?access_token=token'', sock_readyState = 1,
             sock_onerror = True, sock_onclose = True, sock_onNotification = Some 0,
             sock_resolve = Caller_then\<rparr>"]
  by simp

lemma CHANGE_TRIGGER_text_truthy: "CHANGE_TRIGGER_text t \<noteq> []"
  by (cases t) simp_all

lemma count_reconnect_attempt: "reconnectCount (reconnect_attempt t s) = reconnectCount s"
  by (simp add: reconnect_attempt_def connect_def reset_socket_def clearInterval_def
      clearTimeout_def emit_def Let_def split: option.split)

lemma opened_reconnect_attempt:
  "filter is_Socket_new (ws_effects (reconnect_attempt t s))
     = filter is_Socket_new (ws_effects s)
       @ [Socket_new (connectionUrl (reconnect_attempt t s))]"
  by (simp add: reconnect_attempt_def opened_connect emit_def)

lemma scheduled_reset_socket:
  "filter is_Set_timeout (ws_effects (reset_socket t s)) = filter is_Set_timeout (ws_effects s)"
  by (simp add: reset_socket_def Let_def clearInterval_def clearTimeout_def emit_def
      split: option.split)

lemma scheduled_reconnect_attempt:
  "filter is_Set_timeout (ws_effects (reconnect_attempt t s))
     = filter is_Set_timeout (ws_effects s)"
  by (simp add: reconnect_attempt_def connect_def Let_def scheduled_reset_socket emit_def)

lemma resolve_reconnect_attempt:
  "map_option sock_resolve (socket (reconnect_attempt t s)) = Some (Reconnect_then t)"
  by (simp add: reconnect_attempt_def connect_def Let_def emit_def)

lemma onopen_after_reconnect_attempt:
  "reconnectCount (socket_onopen (reconnect_attempt t s)) = 0"
  by (simp add: reconnect_attempt_def connect_def Let_def emit_def socket_onopen_def
      reconnected_def)

lemma reconnect_first:
  assumes "loadValue_EXPIRATION s" and "reconnectCount s = 0"
  shows "reconnect t s
     = reconnect_attempt t ((emit (Enter_reconnect t) s)\<lparr>reconnectCount := 1\<rparr>)"
  using assms by (simp add: reconnect_def Let_def loadValue_EXPIRATION_def emit_def)

lemma reconnect_later:
  assumes "loadValue_EXPIRATION s" and "0 < reconnectCount s"
  shows "reconnect t s
     = (emit (Set_timeout (next_timer s) CONFIG_RECONNECT_INTERVAL)
          ((emit (Enter_reconnect t) s)
             \<lparr>reconnectCount := reconnectCount s + 1, next_timer := next_timer s + 1,
              armed_timeouts := armed_timeouts s
                @ [(next_timer s, CONFIG_RECONNECT_INTERVAL, t)]\<rparr>))
        \<lparr>reconnectTimeoutId := Some (next_timer s)\<rparr>"
  using assms by (simp add: reconnect_def Let_def loadValue_EXPIRATION_def emit_def)

text \<open>
  C6: when \<open>reconnect\<close> runs with a stored expiration of the access token, the attempt
  counter goes up by one. If it is then 1, the socket is opened in that same step and no
  timeout is armed; if it is greater than 1, no socket is opened in this step and the
  attempt is armed as a timeout of the reconnect interval, 15000 ms, which opens the
  socket when it goes off. When the socket of a reconnect attempt opens, the counter is
  zero again.
\<close>

theorem reconnect_attempt_schedule:
  assumes "loadValue_EXPIRATION s"
  shows "reconnectCount (reconnect t s) = reconnectCount s + 1
     \<and> (reconnectCount s + 1 = 1 \<longrightarrow>
          filter is_Socket_new (ws_effects (reconnect t s))
            = filter is_Socket_new (ws_effects s) @ [Socket_new (connectionUrl (reconnect t s))]
          \<and> filter is_Set_timeout (ws_effects (reconnect t s))
            = filter is_Set_timeout (ws_effects s)
          \<and> reconnectCount (socket_onopen (reconnect t s)) = 0)
     \<and> (1 < reconnectCount s + 1 \<longrightarrow>
          filter is_Socket_new (ws_effects (reconnect t s)) = filter is_Socket_new (ws_effects s)
          \<and> socket (reconnect t s) = socket s
          \<and> reconnectTimeoutId (reconnect t s) = Some (next_timer s)
          \<and> armed_timeouts (reconnect t s)
            = armed_timeouts s @ [(next_timer s, CONFIG_RECONNECT_INTERVAL, t)]
          \<and> CONFIG_RECONNECT_INTERVAL = 15000
          \<and> (next_timer s \<notin> fst ` set (armed_timeouts s) \<longrightarrow>
               reconnect_timeout_fires (next_timer s) (reconnect t s)
                 = reconnect_attempt t ((reconnect t s)\<lparr>armed_timeouts := armed_timeouts s\<rparr>)
               \<and> reconnectCount
                   (socket_onopen (reconnect_timeout_fires (next_timer s) (reconnect t s))) = 0))"
proof (cases "reconnectCount s = 0")
  case True
  note first = reconnect_first [OF assms True]
  show ?thesis
    using True
    by (simp add: first count_reconnect_attempt opened_reconnect_attempt
        scheduled_reconnect_attempt onopen_after_reconnect_attempt emit_def)
next
  case False
  then have pos: "0 < reconnectCount s" by simp
  note later = reconnect_later [OF assms pos]
  have fresh: "next_timer s \<notin> fst ` set (armed_timeouts s)
      \<Longrightarrow> filter (\<lambda>x. fst x = next_timer s) (armed_timeouts s) = []
        \<and> filter (\<lambda>x. fst x \<noteq> next_timer s) (armed_timeouts s) = armed_timeouts s"
    by (force simp: filter_empty_conv filter_id_conv)
  have fires: "next_timer s \<notin> fst ` set (armed_timeouts s)
      \<Longrightarrow> reconnect_timeout_fires (next_timer s) (reconnect t s)
        = reconnect_attempt t ((reconnect t s)\<lparr>armed_timeouts := armed_timeouts s\<rparr>)"
    using fresh by (simp add: later reconnect_timeout_fires_def emit_def)
  show ?thesis
    using pos fires
    by (simp add: later emit_def onopen_after_reconnect_attempt
        CONFIG_RECONNECT_INTERVAL_def UNITS_IN_MILLIS_SECOND_def)
qed

text \<open>
  C7: when \<open>reconnect\<close> is called and no expiration of the access token is stored, no
  socket is opened: the trigger is recorded as the pending trigger and the renewal of the
  token is requested. When \<open>pendingReconnect\<close> runs with a trigger recorded, it enters
  \<open>reconnect\<close> once, with exactly that trigger, and the recorded trigger is cleared.
\<close>

theorem reconnect_deferred_until_token_renewed:
  "(\<not> loadValue_EXPIRATION s \<longrightarrow>
       pendingReconnectTrigger (reconnect t s) = Some t
     \<and> socket (reconnect t s) = socket s
     \<and> filter is_Socket_new (ws_effects (reconnect t s)) = filter is_Socket_new (ws_effects s)
     \<and> ws_effects (reconnect t s)
         = ws_effects s @ [Enter_reconnect t,
             Log Info ''Access token has to be refreshed before reconnecting the WebSocket'',
             Publish ACCESS_TOKEN_RENEW])
   \<and> (pendingReconnectTrigger s = Some t \<longrightarrow>
       pendingReconnectTrigger (pendingReconnect s) = None
     \<and> pendingReconnect s
         = (reconnect t (emit (Log Info ''Reconnecting WebSocket after access token refresh'') s))
             \<lparr>pendingReconnectTrigger := None\<rparr>
     \<and> reconnects_entered (ws_effects (pendingReconnect s))
         = reconnects_entered (ws_effects s) @ [t])"
proof -
  have a: "\<not> loadValue_EXPIRATION s \<Longrightarrow>
      reconnect t s = (emit (Publish ACCESS_TOKEN_RENEW)
        ((emit (Log Info ''Access token has to be refreshed before reconnecting the WebSocket'')
           (emit (Enter_reconnect t) s))\<lparr>pendingReconnectTrigger := Some t\<rparr>))"
    by (simp add: reconnect_def Let_def loadValue_EXPIRATION_def emit_def)
  have b: "pendingReconnectTrigger s = Some t \<Longrightarrow>
      pendingReconnect s
        = (reconnect t (emit (Log Info ''Reconnecting WebSocket after access token refresh'') s))
            \<lparr>pendingReconnectTrigger := None\<rparr>"
    by (simp add: pendingReconnect_def CHANGE_TRIGGER_text_truthy Let_def)
  show ?thesis
    using a b by (simp add: emit_def entered_reconnect entered_simps)
qed

lemma example_open_facts:
  "loadValue_EXPIRATION example_open_service
   \<and> reconnectCount example_open_service = 0"
  by (simp add: example_open_service_def example_service_def ws_defs)

lemma example_dropped_facts:
  "loadValue_EXPIRATION example_dropped_service
   \<and> reconnectCount example_dropped_service = 1
   \<and> next_timer example_dropped_service = 2
   \<and> armed_timeouts example_dropped_service = []"
  by (simp add: example_dropped_service_def example_open_service_def example_service_def
      ws_defs)

theorem reconnect_attempt_schedule_witness:
  "loadValue_EXPIRATION example_open_service
   \<and> reconnectCount example_open_service + 1 = 1
   \<and> reconnectCount (reconnect CLOSE example_open_service) = 1
   \<and> filter is_Socket_new (ws_effects (reconnect CLOSE example_open_service))
       = filter is_Socket_new (ws_effects example_open_service)
         @ [Socket_new (connectionUrl (reconnect CLOSE example_open_service))]
   \<and> filter is_Set_timeout (ws_effects (reconnect CLOSE example_open_service))
       = filter is_Set_timeout (ws_effects example_open_service)
   \<and> reconnectCount (socket_onopen (reconnect CLOSE example_open_service)) = 0
   \<and> loadValue_EXPIRATION example_dropped_service
   \<and> 1 < reconnectCount example_dropped_service + 1
   \<and> reconnectCount (reconnect ERROR example_dropped_service) = 2
   \<and> filter is_Socket_new (ws_effects (reconnect ERROR example_dropped_service))
       = filter is_Socket_new (ws_effects example_dropped_service)
   \<and> armed_timeouts (reconnect ERROR example_dropped_service) = [(2, 15000, ERROR)]
   \<and> reconnectTimeoutId (reconnect ERROR example_dropped_service) = Some 2
   \<and> next_timer example_dropped_service \<notin> fst ` set (armed_timeouts example_dropped_service)
   \<and> reconnectCount
        (socket_onopen (reconnect_timeout_fires 2 (reconnect ERROR example_dropped_service))) = 0"
proof -
  have a: "loadValue_EXPIRATION example_open_service"
    and b: "loadValue_EXPIRATION example_dropped_service"
    using example_open_facts example_dropped_facts by simp_all
  show ?thesis
    using example_open_facts example_dropped_facts
      reconnect_attempt_schedule [OF a, of CLOSE]
      reconnect_attempt_schedule [OF b, of ERROR]
    by (simp add: onopen_after_reconnect_attempt)
qed

lemma example_expired_facts:
  "\<not> loadValue_EXPIRATION example_expired_service
   \<and> pendingReconnectTrigger example_expired_service = None"
  by (simp add: example_expired_service_def example_unanswered_service_def
      example_open_service_def example_service_def ws_defs)

lemma example_renewed_facts:
  "pendingReconnectTrigger example_renewed_service = Some PING_INTERVAL
   \<and> loadValue_EXPIRATION example_renewed_service"
  by (simp add: example_renewed_service_def example_expired_service_def
      example_unanswered_service_def example_open_service_def example_service_def ws_defs)

theorem reconnect_deferred_until_token_renewed_witness:
  "\<not> loadValue_EXPIRATION example_expired_service
   \<and> pendingReconnectTrigger (reconnect PING_INTERVAL example_expired_service)
       = Some PING_INTERVAL
   \<and> socket (reconnect PING_INTERVAL example_expired_service) = socket example_expired_service
   \<and> filter is_Socket_new (ws_effects (reconnect PING_INTERVAL example_expired_service))
       = filter is_Socket_new (ws_effects example_expired_service)
   \<and> pendingReconnectTrigger example_renewed_service = Some PING_INTERVAL
   \<and> pendingReconnectTrigger (pendingReconnect example_renewed_service) = None
   \<and> reconnects_entered (ws_effects (pendingReconnect example_renewed_service))
       = reconnects_entered (ws_effects example_renewed_service) @ [PING_INTERVAL]"
  using example_expired_facts example_renewed_facts
    reconnect_deferred_until_token_renewed [of example_expired_service PING_INTERVAL]
    reconnect_deferred_until_token_renewed [of example_renewed_service PING_INTERVAL]
  by (simp add: entered_reconnect entered_simps)

section \<open>The WebSocket service: inbound frames\<close>

lemma example_open_socket:
  "socket example_open_service
     = Some \<lparr>sock_url = ''wss://example.test/await?access_token=token'', sock_readyState = 1,
             sock_onerror = True, sock_onclose = True, sock_onNotification = Some 0,
             sock_resolve = Caller_then\<rparr>"
  by (simp add: example_open_service_def example_service_def ws_defs)

lemma JSON_parse_brace: "JSON_parse ''{'' = None"
  by code_simp

lemma JSON_parse_empty_array: "JSON_parse ''[]'' = Some (JArray [])"
  by code_simp

text \<open>
  The claim C4 as it was stated fails: on an open socket the frame with the text \<open>{\<close>,
  which is neither \<open>pong\<close> nor JSON, makes the handler throw a \<open>SyntaxError\<close>, and no line
  is logged.
\<close>

theorem onmessage_malformed_counterexample:
  "socket example_open_service
     = Some \<lparr>sock_url = ''wss://example.test/await?access_token=token'', sock_readyState = 1,
             sock_onerror = True, sock_onclose = True, sock_onNotification = Some 0,
             sock_resolve = Caller_then\<rparr>
   \<and> ''{'' \<noteq> ''pong''
   \<and> JSON_parse ''{'' = None
   \<and> fst (socket_onmessage (Blob ''{'') example_open_service) = Some SyntaxError
   \<and> filter is_Log (ws_effects (snd (socket_onmessage (Blob ''{'') example_open_service)))
       = filter is_Log (ws_effects example_open_service)"
  using example_open_socket JSON_parse_brace
  by (simp add: socket_onmessage_def blobReader_onload_def)

text \<open>
  C4, amended: for every inbound frame whose text is not \<open>pong\<close> and is not valid JSON, the
  handler throws the \<open>SyntaxError\<close> of \<open>JSON.parse\<close>; the service is left as it was, so
  nothing is logged, nothing is delivered and the socket is kept. The deliver callback is
  called only for a frame whose text was parsed.
\<close>

theorem onmessage_malformed_throws:
  "(socket s = Some sock \<and> txt \<noteq> ''pong'' \<and> JSON_parse txt = None \<longrightarrow>
      socket_onmessage (Blob txt) s = (Some SyntaxError, s))
   \<and> (filter is_Notification (ws_effects (snd (socket_onmessage data s)))
        \<noteq> filter is_Notification (ws_effects s) \<longrightarrow>
      (\<exists>txt v. data = Blob txt \<and> txt \<noteq> ''pong'' \<and> JSON_parse txt = Some v))"
  by (auto simp: socket_onmessage_def blobReader_onload_def emit_def
      split: option.splits frame.splits if_splits)

theorem onmessage_malformed_throws_witness:
  "socket example_open_service
     = Some \<lparr>sock_url = ''wss://example.test/await?access_token=token'', sock_readyState = 1,
             sock_onerror = True, sock_onclose = True, sock_onNotification = Some 0,
             sock_resolve = Caller_then\<rparr>
   \<and> ''{'' \<noteq> ''pong'' \<and> JSON_parse ''{'' = None
   \<and> socket_onmessage (Blob ''{'') example_open_service = (Some SyntaxError, example_open_service)
   \<and> filter is_Notification (ws_effects (snd (socket_onmessage (Blob ''[]'') example_open_service)))
        \<noteq> filter is_Notification (ws_effects example_open_service)
   \<and> ''[]'' \<noteq> ''pong'' \<and> JSON_parse ''[]'' = Some (JArray [])"
proof -
  have n: "filter is_Notification (ws_effects (snd (socket_onmessage (Blob ''[]'') example_open_service)))
        \<noteq> filter is_Notification (ws_effects example_open_service)"
    using example_open_socket JSON_parse_empty_array
    by (simp add: socket_onmessage_def blobReader_onload_def emit_def)
  show ?thesis
    using n example_open_socket JSON_parse_brace JSON_parse_empty_array
      onmessage_malformed_throws [of example_open_service
        "\<lparr>sock_url = ''wss://example.test/await?access_token=token'', sock_readyState = 1,
             sock_onerror = True, sock_onclose = True, sock_onNotification = Some 0,
             sock_resolve = Caller_then\<rparr>" "''{''" "Blob ''[]''"]
    by simp
qed

section \<open>The calling repository: configuration and inbound events\<close>

lemmas repo_defs =
  new_CallingRepository_def initAvs_def repo_emit_def getConfig_def getConfigFromBackend_def
  getConfigFromBackend_then_def clearConfig_def clearConfigTimeout_def fetchConfig_def
  config_timeout_def config_ttl_def Date_time_def DEFAULT_CONFIG_TTL_def
  UNITS_IN_MILLIS_SECOND_def config_timeout_fires_def Let_def

lemma config_timeout_100: "ttl response = Some 100 \<Longrightarrow> config_timeout response = 90000"
  by (simp add: config_timeout_def config_ttl_def DEFAULT_CONFIG_TTL_def
      UNITS_IN_MILLIS_SECOND_def)

lemma Date_time_of_int: "Date_time (of_int a + of_int b) = a + b"
proof -
  have "Date_time (of_int (a + b)) = a + b"
    by (simp add: Date_time_def del: of_int_add)
  then show ?thesis by simp
qed

lemma stored_after_then:
  "getConfigFromBackend_then now (Some response) r = (res, r') \<Longrightarrow>
     callingConfig r'
       = Some \<lparr>ice_servers = ice_servers response, ttl = ttl response,
               expiration = Date_time (of_int now + config_timeout response)\<rparr>
     \<and> res = callingConfig r'
     \<and> callingConfigTimeout r' = Some (repo_next_timer (clearConfigTimeout r))
     \<and> (repo_next_timer (clearConfigTimeout r), config_timeout response) \<in> set (config_timers r')"
  by (auto simp: getConfigFromBackend_then_def Let_def repo_emit_def)

lemma getConfig_fresh:
  assumes "callingConfig r = Some c" and "t \<le> expiration c"
  shows "fst (getConfig t r) = Local c
    \<and> callingConfig (snd (getConfig t r)) = Some c
    \<and> filter is_Fetch_config (repo_effects (snd (getConfig t r)))
        = filter is_Fetch_config (repo_effects r)"
  using assms by (simp add: getConfig_def Let_def repo_emit_def)

lemma getConfig_expired:
  assumes "callingConfig r = Some c" and "expiration c < t"
  shows "fst (getConfig t r)
      = Backend (if browser_firefox r then Some MAX_FIREFOX_TURN_COUNT else None)
    \<and> callingConfig (snd (getConfig t r)) = None
    \<and> filter is_Fetch_config (repo_effects (snd (getConfig t r)))
        = filter is_Fetch_config (repo_effects r)
          @ [Fetch_config (if browser_firefox r then Some MAX_FIREFOX_TURN_COUNT else None)]"
  using assms
  by (simp add: getConfig_def Let_def repo_emit_def getConfigFromBackend_def clearConfig_def
      fetchConfig_def)

lemma config_timeout_fires_fetches:
  assumes "(i, d) \<in> set (config_timers r)"
  shows "callingConfig (config_timeout_fires i t r) = None
    \<and> filter is_Fetch_config (repo_effects (config_timeout_fires i t r))
        = filter is_Fetch_config (repo_effects r)
          @ [Fetch_config (if browser_firefox r then Some MAX_FIREFOX_TURN_COUNT else None)]"
proof -
  have "i \<in> fst ` set (config_timers r)" using assms by force
  then show ?thesis
    by (simp add: config_timeout_fires_def getConfig_def Let_def repo_emit_def
        getConfigFromBackend_def clearConfig_def fetchConfig_def split: option.split)
qed

lemma browser_after_then:
  "browser_firefox (snd (getConfigFromBackend_then now resp r)) = browser_firefox r"
  by (simp add: getConfigFromBackend_then_def Let_def repo_emit_def clearConfigTimeout_def
      split: option.split)

text \<open>
  C5, amended: after a fetch with \<open>ttl = 100\<close> was stored at time \<open>now\<close>, the configuration
  expires at \<open>now\<close> + 90 s. While it is stored, every \<open>getConfig\<close> at or before that
  time returns it without a fetch, and every \<open>getConfig\<close> after that time removes it and
  fetches from the backend. A timeout of 90 s is armed; when it goes off the configuration
  is removed and fetched again. The lifetime is min(ttl * 0.9, 3600) seconds when the ttl
  is not zero, and 3600 seconds when the ttl is zero or missing.
\<close>

theorem config_reused_until_expiration:
  "(ttl response = Some 100 \<longrightarrow>
      callingConfig (snd (getConfigFromBackend_then now (Some response) r))
        = Some \<lparr>ice_servers = ice_servers response, ttl = ttl response,
                expiration = now + 90000\<rparr>
    \<and> (\<forall>t. t \<le> now + 90000 \<longrightarrow>
          fst (getConfig t (snd (getConfigFromBackend_then now (Some response) r)))
            = Local \<lparr>ice_servers = ice_servers response, ttl = ttl response,
                     expiration = now + 90000\<rparr>
        \<and> filter is_Fetch_config (repo_effects
              (snd (getConfig t (snd (getConfigFromBackend_then now (Some response) r)))))
            = filter is_Fetch_config (repo_effects
                (snd (getConfigFromBackend_then now (Some response) r))))
    \<and> (\<forall>t. now + 90000 < t \<longrightarrow>
          fst (getConfig t (snd (getConfigFromBackend_then now (Some response) r)))
            = Backend (if browser_firefox r then Some MAX_FIREFOX_TURN_COUNT else None)
        \<and> callingConfig
              (snd (getConfig t (snd (getConfigFromBackend_then now (Some response) r)))) = None
        \<and> filter is_Fetch_config (repo_effects
              (snd (getConfig t (snd (getConfigFromBackend_then now (Some response) r)))))
            = filter is_Fetch_config (repo_effects
                (snd (getConfigFromBackend_then now (Some response) r)))
              @ [Fetch_config (if browser_firefox r then Some MAX_FIREFOX_TURN_COUNT else None)]))
   \<and> (ttl response = Some 100 \<longrightarrow>
        callingConfigTimeout (snd (getConfigFromBackend_then now (Some response) r)) \<noteq> None
      \<and> (\<forall>i. callingConfigTimeout (snd (getConfigFromBackend_then now (Some response) r))
                = Some i \<longrightarrow>
            (i, 90000) \<in> set (config_timers (snd (getConfigFromBackend_then now (Some response) r)))
          \<and> (\<forall>t. callingConfig (config_timeout_fires i t
                    (snd (getConfigFromBackend_then now (Some response) r))) = None
               \<and> filter is_Fetch_config (repo_effects (config_timeout_fires i t
                    (snd (getConfigFromBackend_then now (Some response) r))))
                   = filter is_Fetch_config (repo_effects
                       (snd (getConfigFromBackend_then now (Some response) r)))
                     @ [Fetch_config
                          (if browser_firefox r then Some MAX_FIREFOX_TURN_COUNT else None)])))
   \<and> (\<forall>q. ttl response = Some q \<and> q \<noteq> 0 \<longrightarrow>
        config_timeout response = min (q * (9 / 10)) DEFAULT_CONFIG_TTL * 1000)
   \<and> (ttl response = Some 0 \<or> ttl response = None \<longrightarrow>
        config_timeout response = DEFAULT_CONFIG_TTL * 1000)
   \<and> DEFAULT_CONFIG_TTL = 3600
   \<and> map_option expiration
        (callingConfig (snd (getConfigFromBackend_then now (Some response) r)))
       = Some (Date_time (of_int now + config_timeout response))"
proof -
  let ?r' = "snd (getConfigFromBackend_then now (Some response) r)"
  let ?c = "\<lparr>ice_servers = ice_servers response, ttl = ttl response,
             expiration = now + 90000\<rparr>"
  have st: "callingConfig ?r'
      = Some \<lparr>ice_servers = ice_servers response, ttl = ttl response,
              expiration = Date_time (of_int now + config_timeout response)\<rparr>"
    using stored_after_then [of now response r] by (cases "getConfigFromBackend_then now (Some response) r") simp
  have hundred: "ttl response = Some 100 \<Longrightarrow> callingConfig ?r' = Some ?c"
  proof -
    assume h: "ttl response = Some 100"
    have "Date_time (of_int now + 90000) = now + 90000"
      using Date_time_of_int [of now 90000] by simp
    then show ?thesis using st config_timeout_100 [OF h] by simp
  qed
  have fresh: "ttl response = Some 100 \<Longrightarrow> t \<le> now + 90000 \<Longrightarrow>
      fst (getConfig t ?r') = Local ?c
      \<and> filter is_Fetch_config (repo_effects (snd (getConfig t ?r')))
          = filter is_Fetch_config (repo_effects ?r')" for t
    using getConfig_fresh [of ?r' ?c t] hundred by simp
  have expired: "ttl response = Some 100 \<Longrightarrow> now + 90000 < t \<Longrightarrow>
      fst (getConfig t ?r')
        = Backend (if browser_firefox r then Some MAX_FIREFOX_TURN_COUNT else None)
      \<and> callingConfig (snd (getConfig t ?r')) = None
      \<and> filter is_Fetch_config (repo_effects (snd (getConfig t ?r')))
          = filter is_Fetch_config (repo_effects ?r')
            @ [Fetch_config (if browser_firefox r then Some MAX_FIREFOX_TURN_COUNT else None)]" for t
    using getConfig_expired [of ?r' ?c t] hundred browser_after_then [of now "Some response" r]
    by simp
  have life: "ttl response = Some q \<Longrightarrow> q \<noteq> 0 \<Longrightarrow>
      config_timeout response = min (q * (9 / 10)) DEFAULT_CONFIG_TTL * 1000" for q
    by (simp add: config_timeout_def config_ttl_def UNITS_IN_MILLIS_SECOND_def)
  have dflt: "ttl response = Some 0 \<or> ttl response = None \<Longrightarrow>
      config_timeout response = DEFAULT_CONFIG_TTL * 1000"
    by (auto simp: config_timeout_def config_ttl_def UNITS_IN_MILLIS_SECOND_def)
  have ceiling: "DEFAULT_CONFIG_TTL = 3600" by (simp add: DEFAULT_CONFIG_TTL_def)
  have armed: "ttl response = Some 100 \<Longrightarrow> callingConfigTimeout ?r' = Some i \<Longrightarrow>
      (i, 90000) \<in> set (config_timers ?r')" for i
    using stored_after_then [of now response r] config_timeout_100 [of response]
    by (cases "getConfigFromBackend_then now (Some response) r") simp
  have some: "callingConfigTimeout ?r' \<noteq> None"
    using stored_after_then [of now response r]
    by (cases "getConfigFromBackend_then now (Some response) r") simp
  have fires: "ttl response = Some 100 \<Longrightarrow> callingConfigTimeout ?r' = Some i \<Longrightarrow>
      callingConfig (config_timeout_fires i t ?r') = None
      \<and> filter is_Fetch_config (repo_effects (config_timeout_fires i t ?r'))
          = filter is_Fetch_config (repo_effects ?r')
            @ [Fetch_config (if browser_firefox r then Some MAX_FIREFOX_TURN_COUNT else None)]"
    for i t
    using config_timeout_fires_fetches [OF armed, of i t]
      browser_after_then [of now "Some response" r]
    by simp
  show ?thesis
    using hundred fresh expired life dflt ceiling st armed some fires by simp
qed

lemma example_repository_facts:
  "callingApi example_repository
     = Some (initial_CallState\<lparr>api_effects := [RequestConfig]\<rparr>)
   \<and> repo_activeCalls example_repository = []
   \<and> repo_effects example_repository = [Fetch_config None]
   \<and> callingConfig example_repository = None
   \<and> callingConfigTimeout example_repository = None
   \<and> config_timers example_repository = []
   \<and> repo_next_timer example_repository = 1
   \<and> \<not> browser_firefox example_repository"
  by (simp add: example_repository_def new_CallingRepository_def initAvs_def requestConfig_def
      callCreate_def getConfig_def getConfigFromBackend_def fetchConfig_def repo_emit_def
      initial_CallState_def)

lemma example_configured_facts:
  "ttl example_response = Some 100
   \<and> callingConfig example_configured_repository
       = Some \<lparr>ice_servers = [[''turn:example.test:3478'']], ttl = Some 100,
               expiration = 1090000\<rparr>
   \<and> callingConfigTimeout example_configured_repository = Some 1
   \<and> config_timers example_configured_repository = [(1, 90000)]
   \<and> \<not> browser_firefox example_configured_repository"
  using example_repository_facts
  by (simp add: example_configured_repository_def example_response_def
      getConfigFromBackend_then_def clearConfigTimeout_def repo_emit_def config_timeout_def
      config_ttl_def Date_time_def DEFAULT_CONFIG_TTL_def UNITS_IN_MILLIS_SECOND_def Let_def)

text \<open>
  The claim C5 as it was stated fails at the boundary: with \<open>ttl = 100\<close> stored at time
  1000000, a \<open>getConfig\<close> at exactly 90 s later, the timeout still armed, returns the
  stored configuration and fetches nothing.
\<close>

theorem config_reused_at_expiration_counterexample:
  "ttl example_response = Some 100
   \<and> example_configured_repository
       = snd (getConfigFromBackend_then 1000000 (Some example_response) example_repository)
   \<and> (1090000 :: int) = 1000000 + 90 * 1000
   \<and> fst (getConfig 1090000 example_configured_repository)
       = Local \<lparr>ice_servers = [[''turn:example.test:3478'']], ttl = Some 100,
                expiration = 1090000\<rparr>
   \<and> filter is_Fetch_config (repo_effects (snd (getConfig 1090000 example_configured_repository)))
       = filter is_Fetch_config (repo_effects example_configured_repository)"
  using example_configured_facts
  by (simp add: getConfig_def Let_def repo_emit_def example_configured_repository_def)

theorem config_reused_until_expiration_witness:
  "ttl example_response = Some 100
   \<and> (1090000 :: int) \<le> 1000000 + 90000
   \<and> fst (getConfig 1090000 example_configured_repository)
       = Local \<lparr>ice_servers = [[''turn:example.test:3478'']], ttl = Some 100,
                expiration = 1090000\<rparr>
   \<and> (1000000 :: int) + 90000 < 1090001
   \<and> fst (getConfig 1090001 example_configured_repository) = Backend None
   \<and> callingConfig (snd (getConfig 1090001 example_configured_repository)) = None
   \<and> callingConfigTimeout example_configured_repository = Some 1
   \<and> callingConfig (config_timeout_fires 1 1090000 example_configured_repository) = None
   \<and> ttl example_response = Some 100 \<and> (100 :: rat) \<noteq> 0
   \<and> config_timeout example_response = min (100 * (9 / 10)) DEFAULT_CONFIG_TTL * 1000
   \<and> ttl (example_response\<lparr>ttl := Some 0\<rparr>) = Some 0
   \<and> config_timeout (example_response\<lparr>ttl := Some 0\<rparr>) = DEFAULT_CONFIG_TTL * 1000"
  using example_configured_facts
    config_reused_until_expiration [of example_response 1000000 example_repository]
    config_reused_until_expiration [of "example_response\<lparr>ttl := Some 0\<rparr>" 1000000 example_repository]
    example_repository_facts
  by (simp add: example_configured_repository_def)

lemmas event_defs =
  onCallEvent_def injectDeactivateEvent_def injectActivateEvent_def repo_emit_def Let_def

lemmas handler_defs =
  state_handler_def callClosed_def mute_handler_def findCall_def storeCall_def removeCall_def
  Let_def

text \<open>
  The handlers that the engine calls write no effect and leave the API alone; an effect
  written before they run is still there after.
\<close>

lemma engine_calls_emit:
  "engine_calls h (r\<lparr>repo_effects := es\<rparr>) = (engine_calls h r)\<lparr>repo_effects := es\<rparr>"
  by (cases h) (simp_all add: handler_defs split: option.split)

lemma run_engine_calls_emit:
  "run_engine_calls hs (r\<lparr>repo_effects := es\<rparr>) = (run_engine_calls hs r)\<lparr>repo_effects := es\<rparr>"
  by (induction hs arbitrary: r) (simp_all add: engine_calls_emit)

lemma engine_calls_frame:
  "repo_effects (engine_calls h r) = repo_effects r
   \<and> callingApi (engine_calls h r) = callingApi r"
  by (cases h) (simp_all add: handler_defs split: option.split)




lemma onCallEvent_active_calls:
  assumes "callingApi r = Some api"
  shows "repo_activeCalls (snd (onCallEvent event source now reaction r))
      = repo_activeCalls (run_engine_calls (er_calls reaction) r)"
  using assms by (simp add: event_defs run_engine_calls_emit)




text \<open>
  With a call stored for the conversation, the same CANCEL, the engine reporting that the
  other side ended the call, removes it from the active calls.
\<close>

lemma onCallEvent_cancel_removes_stored_call:
  "repo_activeCalls example_incoming_repository
     = [\<lparr>ac_conversationId = ''conv'', ac_reason = None, ac_startedAt = None,
         ac_state = INCOMING\<rparr>]
   \<and> repo_activeCalls (snd (onCallEvent example_cancel_event ''WebSocket'' 2000
        example_ending_reaction example_incoming_repository)) = []"
proof -
  have stored: "repo_activeCalls example_incoming_repository
     = [\<lparr>ac_conversationId = ''conv'', ac_reason = None, ac_startedAt = None,
         ac_state = INCOMING\<rparr>]"
    using example_repository_facts
    by (simp add: example_incoming_repository_def state_handler_def findCall_def storeCall_def)
  have api: "callingApi example_incoming_repository
      = Some (initial_CallState\<lparr>api_effects := [RequestConfig]\<rparr>)"
    using example_repository_facts engine_calls_frame [of "State_changed ''conv'' INCOMING 500"]
    by (simp add: example_incoming_repository_def)
  have "repo_activeCalls (run_engine_calls (er_calls example_ending_reaction)
      example_incoming_repository) = []"
    using stored
    by (simp add: example_ending_reaction_def state_handler_def findCall_def removeCall_def)
  then show ?thesis
    using stored onCallEvent_active_calls [OF api] by simp
qed

end
